theory Spec2Isabelle
  imports Complex_Main "HOL-Library.Log_Nat"
begin

section \<open>Python values used by \<open>scripts/prepare-upload-assets.py\<close>\<close>

text \<open>
  Exceptions are values. Every exception carries the text that \<open>str(exc)\<close> yields.
  The script itself raises only \<open>ValueError\<close>; \<open>OverflowError\<close> comes from float
  arithmetic and from handing the imaging library an integer that does not fit a C
  \<open>int\<close>, \<open>OSError\<close> stands for the failures of the file operations, \<open>ImagingError\<close>
  for any other exception raised inside the imaging library (decoding, allocation,
  encoding).
\<close>

datatype py_error =
  ValueError string | OverflowError string | OSError string | ImagingError string

fun py_str :: "py_error \<Rightarrow> string" where
  "py_str (ValueError m) = m"
| "py_str (OverflowError m) = m"
| "py_str (OSError m) = m"
| "py_str (ImagingError m) = m"

type_synonym bytes = "char list"

subsection \<open>Floats\<close>

text \<open>
  A Python float is an IEEE binary64 number. A finite float is modelled by the rational
  it denotes, and every operation rounds its exact result to the nearest binary64 value,
  ties to even: \<open>fl\<close>. The grid around \<open>q\<close> has spacing \<open>2 powi k\<close> with
  \<open>k = max (floor_log2 \<bar>q\<bar> - 52) (- 1074)\<close> (53 significant bits, subnormals below
  \<open>2 powi (- 1022)\<close>). \<open>fl\<close> itself has no largest exponent: an operation overflows
  when the rounded result reaches \<open>2 ^ 1024\<close> in magnitude, which \<open>float_overflow\<close>
  tells; \<open>float_errors\<close> below turns that into the exceptions Python raises.
\<close>

definition round_half_even :: "rat \<Rightarrow> int" where
  "round_half_even q =
     (let f = \<lfloor>q\<rfloor>; d = q - of_int f
      in if d < 1 / 2 then f else if 1 / 2 < d then f + 1 else if even f then f else f + 1)"

definition floor_log2 :: "rat \<Rightarrow> int" where
  "floor_log2 q =
     (let (a, b) = quotient_of q; e = bitlen a - bitlen b
      in if 2 powi e \<le> q then e else e - 1)"

definition fl :: "rat \<Rightarrow> rat" where
  "fl q =
     (if q = 0 then 0
      else let k = max (floor_log2 \<bar>q\<bar> - 52) (- 1074)
           in of_int (round_half_even (q / 2 powi k)) * 2 powi k)"

definition float_overflow :: "rat \<Rightarrow> bool" where
  "float_overflow q = (2 ^ 1024 \<le> \<bar>fl q\<bar>)"

text \<open>\<open>a / b\<close> on two ints (true division, correctly rounded), where it does not
  overflow; the callers never pass \<open>b = 0\<close>.\<close>

definition py_truediv :: "int \<Rightarrow> int \<Rightarrow> rat" where
  "py_truediv a b = fl (of_int a / of_int b)"

text \<open>\<open>n * x\<close> on an int and a float, where nothing overflows: the int is converted
  to a float first.\<close>

definition py_mul :: "int \<Rightarrow> rat \<Rightarrow> rat" where
  "py_mul n x = fl (fl (of_int n) * x)"

text \<open>\<open>int(round(x))\<close> on a float: \<open>round\<close> with one argument rounds half to even and
  returns an int.\<close>

definition py_round :: "rat \<Rightarrow> int" where
  "py_round x = round_half_even x"

section \<open>The imaging library\<close>

text \<open>
  An image has a format tag (\<open>None\<close> for an image that was not read from a file), a
  mode, a size \<open>(width, height)\<close> and pixel data, one list of band values per
  coordinate. What the library computes from pixel data (mode conversion, Lanczos
  resampling, blending through a mask, decoding and WebP encoding) is a parameter of the
  model, collected in the record \<open>pil\<close>; the sizes, modes and the region a paste
  touches are the library's documented behaviour and are written out. Whether the
  library can allocate an image of a given mode and size (memory, internal limits) is a
  parameter too: \<open>pil_alloc\<close> gives the exception it raises when it cannot.
\<close>

type_synonym pixel = "nat list"

type_synonym raster = "int \<times> int \<Rightarrow> pixel"

record image =
  img_format :: "string option"
  img_mode :: string
  img_size :: "int \<times> int"
  img_px :: raster

record pil =
  pil_decode :: "bytes \<Rightarrow> py_error + image"
  pil_convert :: "string \<Rightarrow> image \<Rightarrow> raster"
  pil_lanczos :: "image \<Rightarrow> int \<times> int \<Rightarrow> raster"
  pil_blend :: "pixel \<Rightarrow> pixel \<Rightarrow> pixel \<Rightarrow> pixel"
  pil_encode_webp :: "image \<Rightarrow> int \<Rightarrow> (py_error \<times> bytes) + bytes"
  pil_alloc :: "string \<Rightarrow> int \<times> int \<Rightarrow> py_error option"

text \<open>
  The library stores widths and heights in C \<open>int\<close>s: a size with a component above
  \<open>2 ^ 31 - 1\<close> is refused with an \<open>OverflowError\<close> when it is handed over (the width is
  converted first), whatever the memory. \<open>allocate\<close> is the exception raised on the way
  to a new image of the given mode and size, if any.
\<close>

definition C_INT_MAX :: int where
  "C_INT_MAX = 2 ^ 31 - 1"

definition c_int_error :: "int \<Rightarrow> py_error" where
  "c_int_error v =
     OverflowError (if 2 ^ 63 - 1 < v then ''Python int too large to convert to C long''
                    else ''signed integer is greater than maximum'')"

definition allocate :: "pil \<Rightarrow> string \<Rightarrow> int \<times> int \<Rightarrow> py_error option" where
  "allocate lib mode sz =
     (if C_INT_MAX < fst sz then Some (c_int_error (fst sz))
      else if C_INT_MAX < snd sz then Some (c_int_error (snd sz))
      else pil_alloc lib mode sz)"

text \<open>\<open>im.convert(mode)\<close>: a new image of the same size in the given mode.\<close>

definition convert :: "pil \<Rightarrow> image \<Rightarrow> string \<Rightarrow> image" where
  "convert lib im mode =
     \<lparr>img_format = None, img_mode = mode, img_size = img_size im,
      img_px = pil_convert lib mode im\<rparr>"

text \<open>\<open>im.resize(size, Image.Resampling.LANCZOS)\<close>: a new image of the requested
  size in the mode of \<open>im\<close>, unless the size is not positive or the image cannot be
  allocated.\<close>

definition resize :: "pil \<Rightarrow> image \<Rightarrow> int \<times> int \<Rightarrow> py_error + image" where
  "resize lib im sz =
     (if fst sz \<le> 0 \<or> snd sz \<le> 0 then Inl (ValueError ''height and width must be > 0'')
      else case allocate lib (img_mode im) sz of
             Some e \<Rightarrow> Inl e
           | None \<Rightarrow>
               Inr \<lparr>img_format = None, img_mode = img_mode im, img_size = sz,
                    img_px = pil_lanczos lib im sz\<rparr>)"

text \<open>\<open>Image.new(mode, size, color)\<close>: every pixel has the given colour; a negative
  width or height is refused, and so is a size the library cannot allocate.\<close>

definition image_new :: "pil \<Rightarrow> string \<Rightarrow> int \<times> int \<Rightarrow> pixel \<Rightarrow> py_error + image" where
  "image_new lib mode sz color =
     (if fst sz < 0 \<or> snd sz < 0 then Inl (ValueError ''Width and height must be >= 0'')
      else case allocate lib mode sz of
             Some e \<Rightarrow> Inl e
           | None \<Rightarrow>
               Inr \<lparr>img_format = None, img_mode = mode, img_size = sz, img_px = (\<lambda>_. color)\<rparr>)"

text \<open>\<open>canvas.paste(im, (ox, oy), mask)\<close>: inside the rectangle that \<open>im\<close> covers
  when its top-left corner is put at \<open>(ox, oy)\<close>, the canvas pixel becomes the blend of
  the pasted pixel and the old one, weighted by the mask's pixel; every other pixel is
  kept. The canvas keeps its size.\<close>

definition paste :: "pil \<Rightarrow> image \<Rightarrow> image \<Rightarrow> int \<times> int \<Rightarrow> image \<Rightarrow> image" where
  "paste lib canvas im box msk =
     canvas\<lparr>img_px := (\<lambda>(x, y).
        if fst box \<le> x \<and> x < fst box + fst (img_size im) \<and>
           snd box \<le> y \<and> y < snd box + snd (img_size im)
        then pil_blend lib (img_px im (x - fst box, y - snd box))
               (img_px msk (x - fst box, y - snd box)) (img_px canvas (x, y))
        else img_px canvas (x, y))\<rparr>"

section \<open>\<open>render_square_contain\<close>\<close>

text \<open>The local variables of the function, as functions of \<open>side\<close> and the source
  size: \<open>scale\<close>, \<open>(out_w, out_h)\<close> and \<open>(offset_x, offset_y)\<close>.\<close>

definition contain_scale :: "int \<Rightarrow> int \<Rightarrow> int \<Rightarrow> rat" where
  "contain_scale side src_w src_h = min (py_truediv side src_w) (py_truediv side src_h)"

definition contain_out :: "int \<Rightarrow> int \<Rightarrow> int \<Rightarrow> int \<times> int" where
  "contain_out side src_w src_h =
     (let scale = contain_scale side src_w src_h
      in (max 1 (py_round (py_mul src_w scale)), max 1 (py_round (py_mul src_h scale))))"

definition contain_offset :: "int \<Rightarrow> int \<times> int \<Rightarrow> int \<times> int" where
  "contain_offset side out = ((side - fst out) div 2, (side - snd out) div 2)"

text \<open>
  The exception that lines 43 to 45 raise, if any, in the order of evaluation: a true
  division whose result is too large for a float; then, for the width and after it the
  height, an int too large to convert to a float, and a product that overflows to
  infinity, which \<open>round\<close> refuses. Where it is \<open>None\<close>, \<open>contain_scale\<close> and
  \<open>contain_out\<close> are the values Python computes.
\<close>

definition float_errors :: "int \<Rightarrow> int \<Rightarrow> int \<Rightarrow> py_error option" where
  "float_errors side src_w src_h =
     (if float_overflow (of_int side / of_int src_w) \<or>
         float_overflow (of_int side / of_int src_h)
      then Some (OverflowError ''integer division result too large for a float'')
      else
        let scale = contain_scale side src_w src_h
        in if float_overflow (of_int src_w)
           then Some (OverflowError ''int too large to convert to float'')
           else if float_overflow (fl (of_int src_w) * scale)
           then Some (OverflowError ''cannot convert float infinity to integer'')
           else if float_overflow (of_int src_h)
           then Some (OverflowError ''int too large to convert to float'')
           else if float_overflow (fl (of_int src_h) * scale)
           then Some (OverflowError ''cannot convert float infinity to integer'')
           else None)"

definition render_square_contain :: "pil \<Rightarrow> image \<Rightarrow> int \<Rightarrow> py_error + image" where
  "render_square_contain lib src side =
     (let src_rgba = convert lib src ''RGBA'';
          (src_w, src_h) = img_size src_rgba
      in if src_w = 0 \<or> src_h = 0 then Inl (ValueError ''Invalid source dimensions'')
         else
           case float_errors side src_w src_h of
             Some e \<Rightarrow> Inl e
           | None \<Rightarrow>
               let out = contain_out side src_w src_h
               in case resize lib src_rgba out of
                    Inl e \<Rightarrow> Inl e
                  | Inr resized \<Rightarrow>
                      (case image_new lib ''RGBA'' (side, side) [0, 0, 0, 0] of
                         Inl e \<Rightarrow> Inl e
                       | Inr canvas \<Rightarrow>
                           Inr (paste lib canvas resized (contain_offset side out) resized)))"

section \<open>Strings and paths\<close>

text \<open>
  A \<open>char\<close> stands for a code point below 256. The format tags, file names and
  messages of the script are ASCII; for the code points 128 to 255 \<open>str.upper\<close> yields no
  ASCII letter, so leaving them unchanged does not affect a comparison with an ASCII key.
\<close>

definition py_upper :: "string \<Rightarrow> string" where
  "py_upper s =
     map (\<lambda>c. let n = (of_char c :: nat) in if 97 \<le> n \<and> n \<le> 122 then char_of (n - 32) else c) s"

text \<open>\<open>str.isspace\<close> on one character: tab to carriage return, the separators 28 to
  31, space, and among the code points 128 to 255 next line (133) and no-break space
  (160).\<close>

definition py_isspace :: "char \<Rightarrow> bool" where
  "py_isspace c = ((of_char c :: nat) \<in> {9, 10, 11, 12, 13, 28, 29, 30, 31, 32, 133, 160})"

definition py_strip :: "string \<Rightarrow> string" where
  "py_strip s = rev (dropWhile py_isspace (rev (dropWhile py_isspace s)))"

text \<open>\<open>s.rfind(c)\<close>: the highest index of \<open>c\<close>, or \<open>- 1\<close>.\<close>

fun rfind_from :: "char \<Rightarrow> string \<Rightarrow> int \<Rightarrow> int \<Rightarrow> int" where
  "rfind_from c [] i best = best"
| "rfind_from c (x # xs) i best = rfind_from c xs (i + 1) (if x = c then i else best)"

definition py_rfind :: "char \<Rightarrow> string \<Rightarrow> int" where
  "py_rfind c s = rfind_from c s 0 (- 1)"

text \<open>\<open>os.path.basename\<close> (POSIX): what follows the last slash.\<close>

definition basename :: "string \<Rightarrow> string" where
  "basename p = drop (nat (py_rfind (CHR ''/'') p + 1)) p"

text \<open>\<open>os.path.splitext\<close> (POSIX): the extension starts at the last dot, if that dot
  lies after the last slash and some character between the slash and the dot is not a
  dot; otherwise the extension is empty. \<open>some_not_dot\<close> is the loop over the leading
  characters of the file name.\<close>

fun some_not_dot :: "string \<Rightarrow> bool" where
  "some_not_dot [] = False"
| "some_not_dot (c # cs) = (if c \<noteq> CHR ''.'' then True else some_not_dot cs)"

definition splitext :: "string \<Rightarrow> string \<times> string" where
  "splitext p =
     (let sepIndex = py_rfind (CHR ''/'') p;
          dotIndex = py_rfind (CHR ''.'') p
      in if sepIndex < dotIndex \<and>
            some_not_dot (take (nat (dotIndex - (sepIndex + 1))) (drop (nat (sepIndex + 1)) p))
         then (take (nat dotIndex) p, drop (nat dotIndex) p)
         else (p, []))"

text \<open>\<open>os.path.join\<close> (POSIX) on two components.\<close>

definition path_join :: "string \<Rightarrow> string \<Rightarrow> string" where
  "path_join a b =
     (if b \<noteq> [] \<and> hd b = CHR ''/'' then b
      else if a = [] \<or> last a = CHR ''/'' then a @ b
      else a @ ''/'' @ b)"

text \<open>\<open>s.replace(old, new)\<close> for a non-empty \<open>old\<close>: every occurrence, left to
  right, without overlap.\<close>

fun py_replace :: "string \<Rightarrow> string \<Rightarrow> string \<Rightarrow> string" where
  "py_replace old new [] = []"
| "py_replace old new (c # cs) =
     (if old \<noteq> [] \<and> take (length old) (c # cs) = old
      then new @ py_replace old new (drop (length old - 1) cs)
      else c # py_replace old new cs)"

text \<open>The quoting of a file name inside the message of an \<open>OSError\<close> (exact for names
  of printable ASCII characters without quotes and backslashes).\<close>

definition py_repr :: "string \<Rightarrow> string" where
  "py_repr p = [char_of (39 :: nat)] @ p @ [char_of (39 :: nat)]"

section \<open>Files\<close>

text \<open>
  The file system: the contents of the regular files, by absolute path, and the set of
  directories. Permissions, disk space and the parents of a directory are outside the
  model.
\<close>

record fs =
  fs_files :: "string \<rightharpoonup> bytes"
  fs_dirs :: "string set"

text \<open>\<open>os.makedirs(p, exist_ok=True)\<close>: fails if \<open>p\<close> is a regular file.\<close>

definition makedirs :: "fs \<Rightarrow> string \<Rightarrow> py_error + fs" where
  "makedirs s p =
     (if p \<in> dom (fs_files s) then Inl (OSError (''[Errno 17] File exists: '' @ py_repr p))
      else Inr (s\<lparr>fs_dirs := insert p (fs_dirs s)\<rparr>))"

text \<open>\<open>open(p, "rb").read()\<close>.\<close>

definition read_file :: "fs \<Rightarrow> string \<Rightarrow> py_error + bytes" where
  "read_file s p =
     (case fs_files s p of
        None \<Rightarrow> Inl (OSError (''[Errno 2] No such file or directory: '' @ py_repr p))
      | Some b \<Rightarrow> Inr b)"

text \<open>\<open>Image.open(p)\<close> followed by the decoding of the pixel data.\<close>

definition image_open :: "pil \<Rightarrow> fs \<Rightarrow> string \<Rightarrow> py_error + image" where
  "image_open lib s p = (case read_file s p of Inl e \<Rightarrow> Inl e | Inr b \<Rightarrow> pil_decode lib b)"

text \<open>\<open>im.save(p, format="WEBP", quality=q)\<close>: the file at \<open>p\<close> is replaced by the
  encoding. When the encoder fails, the exception propagates and the file holds the
  bytes written until then.\<close>

definition save_webp :: "pil \<Rightarrow> image \<Rightarrow> string \<Rightarrow> int \<Rightarrow> fs \<Rightarrow> (py_error + unit) \<times> fs" where
  "save_webp lib im p q s =
     (case pil_encode_webp lib im q of
        Inl (e, partial) \<Rightarrow> (Inl e, s\<lparr>fs_files := (fs_files s)(p \<mapsto> partial)\<rparr>)
      | Inr b \<Rightarrow> (Inr (), s\<lparr>fs_files := (fs_files s)(p \<mapsto> b)\<rparr>))"

section \<open>Hashing\<close>

text \<open>
  \<open>hashlib.sha256\<close>: the digest function itself is a parameter (\<open>env_sha256\<close> below,
  from a message to its 32 digest bytes). A hash object is the message fed to it so far:
  \<open>update\<close> appends, \<open>hexdigest\<close> prints the digest of the whole message in lowercase
  hexadecimal.
\<close>

definition hex_digit :: "nat \<Rightarrow> char" where
  "hex_digit n = ''0123456789abcdef'' ! (n mod 16)"

definition hex_of :: "bytes \<Rightarrow> string" where
  "hex_of d = concat (map (\<lambda>c. [hex_digit ((of_char c :: nat) div 16), hex_digit (of_char c :: nat)]) d)"

definition CHUNK :: nat where
  "CHUNK = 1024 * 1024"

text \<open>The loop of \<open>sha256_hex\<close>: \<open>h\<close> is the hash object, \<open>rest\<close> what the file
  handle has not yet delivered; \<open>f.read(n)\<close> delivers the next \<open>n\<close> bytes, fewer at
  the end of the file.\<close>

function hash_chunks :: "bytes \<Rightarrow> bytes \<Rightarrow> bytes" where
  "hash_chunks h rest =
     (let chunk = take CHUNK rest
      in if chunk = [] then h else hash_chunks (h @ chunk) (drop CHUNK rest))"
  by pat_completeness auto
termination
  by (relation "measure (\<lambda>(h, rest). length rest)") (auto simp: CHUNK_def)

text \<open>The chunks the loop reads, in order.\<close>

function chunks_of :: "bytes \<Rightarrow> bytes list" where
  "chunks_of rest =
     (let chunk = take CHUNK rest
      in if chunk = [] then [] else chunk # chunks_of (drop CHUNK rest))"
  by pat_completeness auto
termination
  by (relation "measure length") (auto simp: CHUNK_def)

section \<open>The script\<close>

text \<open>
  What the script takes from its surroundings: the imaging library, \<open>os.path.abspath\<close>
  (it depends on the working directory), the SHA-256 digest function and the text of
  \<open>datetime.now(timezone.utc).isoformat()\<close> at the moment the manifest is built.
\<close>

record env =
  env_pil :: pil
  env_abspath :: "string \<Rightarrow> string"
  env_sha256 :: "bytes \<Rightarrow> bytes"
  env_now :: string

definition MAX_MINT_DIM :: int where
  "MAX_MINT_DIM = 4096"

definition MAX_THUMB_DIM :: int where
  "MAX_THUMB_DIM = 512"

definition ALLOWED_MIME :: "(string \<times> string) list" where
  "ALLOWED_MIME =
     [(''JPEG'', ''image/jpeg''), (''PNG'', ''image/png''),
      (''WEBP'', ''image/webp''), (''GIF'', ''image/gif'')]"

text \<open>\<open>sha256_hex(path)\<close>.\<close>

definition sha256_hex :: "env \<Rightarrow> fs \<Rightarrow> string \<Rightarrow> py_error + string" where
  "sha256_hex env s path =
     (case read_file s path of
        Inl e \<Rightarrow> Inl e
      | Inr content \<Rightarrow> Inr (hex_of (env_sha256 env (hash_chunks [] content))))"

subsection \<open>Command line\<close>

text \<open>
  The command line as \<open>argparse\<close> has split it: the two required paths and the three
  optional integers. \<open>parse_args\<close> fills in the defaults. A command line that
  \<open>argparse\<close> rejects never reaches this point (see \<open>script\<close>).
\<close>

record cli =
  cli_input :: string
  cli_out_dir :: string
  cli_mint_max_side :: "int option"
  cli_thumb_max_side :: "int option"
  cli_quality :: "int option"

record args =
  arg_input :: string
  arg_out_dir :: string
  arg_mint_max_side :: int
  arg_thumb_max_side :: int
  arg_quality :: int

definition parse_args :: "cli \<Rightarrow> args" where
  "parse_args c =
     \<lparr>arg_input = cli_input c, arg_out_dir = cli_out_dir c,
      arg_mint_max_side = (case cli_mint_max_side c of None \<Rightarrow> MAX_MINT_DIM | Some v \<Rightarrow> v),
      arg_thumb_max_side = (case cli_thumb_max_side c of None \<Rightarrow> MAX_THUMB_DIM | Some v \<Rightarrow> v),
      arg_quality = (case cli_quality c of None \<Rightarrow> 85 | Some v \<Rightarrow> v)\<rparr>"

subsection \<open>JSON documents\<close>

text \<open>A dict literal is the list of its items in source order; the float literal
  \<open>0.85\<close> is the number \<open>85 / 100\<close>.\<close>

datatype json = JStr string | JInt int | JFloat rat | JObj "(string \<times> json) list"

fun jget :: "string \<Rightarrow> json \<Rightarrow> json option" where
  "jget k (JObj kvs) = map_of kvs k"
| "jget k _ = None"

fun jpath :: "string list \<Rightarrow> json \<Rightarrow> json option" where
  "jpath [] j = Some j"
| "jpath (k # ks) j = (case jget k j of None \<Rightarrow> None | Some j' \<Rightarrow> jpath ks j')"

subsection \<open>Validation and rendering (lines 68 to 83 of the script)\<close>

definition unsupported :: "string \<Rightarrow> py_error" where
  "unsupported fmt =
     ValueError (''Unsupported input format: '' @ (if fmt = [] then ''unknown'' else fmt))"

definition invalid_dimensions :: py_error where
  "invalid_dimensions = ValueError ''Invalid source dimensions''"

text \<open>The upper-cased format tag, \<open>(im.format or "").upper()\<close>.\<close>

definition format_tag :: "image \<Rightarrow> string" where
  "format_tag im = py_upper (case img_format im of None \<Rightarrow> [] | Some f \<Rightarrow> f)"

text \<open>The two checks on the opened image; the result is \<open>(mime, original_w,
  original_h)\<close>. \<open>if not mime\<close> holds for a missing key and for an empty string.\<close>

definition validate_input :: "image \<Rightarrow> py_error + string \<times> int \<times> int" where
  "validate_input im =
     (let fmt = format_tag im
      in case map_of ALLOWED_MIME fmt of
           None \<Rightarrow> Inl (unsupported fmt)
         | Some mime \<Rightarrow>
             if mime = [] then Inl (unsupported fmt)
             else
               let (original_w, original_h) = img_size im
               in if original_w < 1 \<or> original_h < 1 then Inl invalid_dimensions
                  else Inr (mime, original_w, original_h))"

record rendered =
  r_mime :: string
  r_original_w :: int
  r_original_h :: int
  r_mint_side :: int
  r_thumb_side :: int
  r_mint_img :: image
  r_thumb_img :: image

definition load_and_render :: "pil \<Rightarrow> args \<Rightarrow> fs \<Rightarrow> string \<Rightarrow> py_error + rendered" where
  "load_and_render lib a s input_path =
     (case image_open lib s input_path of
        Inl e \<Rightarrow> Inl e
      | Inr im \<Rightarrow>
          (case validate_input im of
             Inl e \<Rightarrow> Inl e
           | Inr (mime, original_w, original_h) \<Rightarrow>
               let max_side_src = max original_w original_h;
                   mint_side = min (arg_mint_max_side a) max_side_src;
                   thumb_side = min (arg_thumb_max_side a) max_side_src
               in case render_square_contain lib im mint_side of
                    Inl e \<Rightarrow> Inl e
                  | Inr mint_img \<Rightarrow>
                      (case render_square_contain lib im thumb_side of
                         Inl e \<Rightarrow> Inl e
                       | Inr thumb_img \<Rightarrow>
                           Inr \<lparr>r_mime = mime, r_original_w = original_w,
                                r_original_h = original_h, r_mint_side = mint_side,
                                r_thumb_side = thumb_side, r_mint_img = mint_img,
                                r_thumb_img = thumb_img\<rparr>)))"

subsection \<open>The manifest (lines 97 to 143)\<close>

definition build_meta ::
  "env \<Rightarrow> string \<Rightarrow> rendered \<Rightarrow> bytes \<Rightarrow> bytes \<Rightarrow> bytes \<Rightarrow> (string \<times> json) list" where
  "build_meta env input_path r original_bytes mint_bytes thumb_bytes =
     [(''description'', JStr ''ArtMint upload smoke test''),
      (''original'', JObj
         [(''filename'', JStr (basename input_path)),
          (''mime'', JStr (r_mime r)),
          (''bytes'', JInt (int (length original_bytes))),
          (''width'', JInt (r_original_w r)),
          (''height'', JInt (r_original_h r)),
          (''sha256'', JStr (hex_of (env_sha256 env original_bytes)))]),
      (''mint'', JObj
         [(''mime'', JStr ''image/webp''),
          (''bytes'', JInt (int (length mint_bytes))),
          (''width'', JInt (r_mint_side r)),
          (''height'', JInt (r_mint_side r)),
          (''maxSide'', JInt (r_mint_side r)),
          (''fit'', JStr ''contain''),
          (''format'', JStr ''webp''),
          (''quality'', JFloat (85 / 100))]),
      (''thumbnail'', JObj
         [(''mime'', JStr ''image/webp''),
          (''bytes'', JInt (int (length thumb_bytes))),
          (''width'', JInt (r_thumb_side r)),
          (''height'', JInt (r_thumb_side r)),
          (''maxSide'', JInt (r_thumb_side r))]),
      (''createdAt'', JStr (py_replace ''+00:00'' ''Z'' (env_now env))),
      (''appVersion'', JStr ''smoke-test'')]"

definition title_stem :: "string \<Rightarrow> string" where
  "title_stem input_path = py_strip (fst (splitext (basename input_path)))"

definition add_title :: "string \<Rightarrow> (string \<times> json) list \<Rightarrow> (string \<times> json) list" where
  "add_title input_path meta =
     (let stem = title_stem input_path
      in if stem \<noteq> [] then meta @ [(''title'', JStr stem)] else meta)"

definition build_result ::
  "string \<Rightarrow> string \<Rightarrow> string \<Rightarrow> string \<Rightarrow> (string \<times> json) list \<Rightarrow> json" where
  "build_result out_dir input_path mint_path thumb_path meta =
     JObj
       [(''files'', JObj
           [(''tempDir'', JStr out_dir),
            (''originalPath'', JStr input_path),
            (''mintPath'', JStr mint_path),
            (''thumbnailPath'', JStr thumb_path),
            (''originalFilename'', JStr (basename input_path)),
            (''mintFilename'', JStr ''mint.webp''),
            (''thumbnailFilename'', JStr ''thumb.webp'')]),
        (''meta'', JObj meta)]"

subsection \<open>\<open>main\<close>\<close>

text \<open>\<open>main\<close> after \<open>parse_args\<close>: the result is the exception that ends it or
  the document it prints, together with the file system it leaves.\<close>

definition main :: "env \<Rightarrow> args \<Rightarrow> fs \<Rightarrow> (py_error + json) \<times> fs" where
  "main env a s0 =
     (let input_path = env_abspath env (arg_input a);
          out_dir = env_abspath env (arg_out_dir a)
      in case makedirs s0 out_dir of
           Inl e \<Rightarrow> (Inl e, s0)
         | Inr s1 \<Rightarrow>
             (case load_and_render (env_pil env) a s1 input_path of
                Inl e \<Rightarrow> (Inl e, s1)
              | Inr r \<Rightarrow>
                  let mint_path = path_join out_dir ''mint.webp'';
                      thumb_path = path_join out_dir ''thumb.webp''
                  in case save_webp (env_pil env) (r_mint_img r) mint_path (arg_quality a) s1 of
                       (Inl e, s2) \<Rightarrow> (Inl e, s2)
                     | (Inr _, s2) \<Rightarrow>
                         (case save_webp (env_pil env) (r_thumb_img r) thumb_path
                                 (arg_quality a) s2 of
                            (Inl e, s3) \<Rightarrow> (Inl e, s3)
                          | (Inr _, s3) \<Rightarrow>
                              (case read_file s3 input_path of
                                 Inl e \<Rightarrow> (Inl e, s3)
                               | Inr original_bytes \<Rightarrow>
                              (case read_file s3 mint_path of
                                 Inl e \<Rightarrow> (Inl e, s3)
                               | Inr mint_bytes \<Rightarrow>
                              (case read_file s3 thumb_path of
                                 Inl e \<Rightarrow> (Inl e, s3)
                               | Inr thumb_bytes \<Rightarrow>
                                   (Inr (build_result out_dir input_path mint_path thumb_path
                                          (add_title input_path
                                            (build_meta env input_path r original_bytes
                                               mint_bytes thumb_bytes))),
                                    s3)))))))"

subsection \<open>The process\<close>

text \<open>
  What a run leaves behind: the documents printed to standard output (each one line, the
  \<open>json.dumps\<close> of the value), standard error, the exit status and the file system. An
  exception that leaves the script makes the interpreter print its traceback to standard
  error and exit with status 1.
\<close>

datatype stderr_item = ErrLine string | Traceback py_error

record outcome =
  out_stdout :: "json list"
  out_stderr :: "stderr_item list"
  out_exit :: int
  out_fs :: fs

text \<open>
  \<open>import_failure\<close> is \<open>Some m\<close> when \<open>from PIL import Image\<close> raises an exception
  whose text is \<open>m\<close>. \<open>cmdline\<close> is \<open>Inl usage\<close> when \<open>argparse\<close> rejects the
  command line: it prints \<open>usage\<close> to standard error and raises \<open>SystemExit(2)\<close>, which
  the handler for \<open>Exception\<close> does not catch.
\<close>

definition script :: "env \<Rightarrow> string option \<Rightarrow> string + cli \<Rightarrow> fs \<Rightarrow> outcome" where
  "script env import_failure cmdline s =
     (case import_failure of
        Some m \<Rightarrow>
          \<lparr>out_stdout = [], out_stderr = [ErrLine (''Failed to import Pillow (PIL): '' @ m)],
           out_exit = 2, out_fs = s\<rparr>
      | None \<Rightarrow>
          (case cmdline of
             Inl usage \<Rightarrow>
               \<lparr>out_stdout = [], out_stderr = [ErrLine usage], out_exit = 2, out_fs = s\<rparr>
           | Inr c \<Rightarrow>
               (case main env (parse_args c) s of
                  (Inl e, s') \<Rightarrow>
                    \<lparr>out_stdout = [], out_stderr = [ErrLine (py_str e), Traceback e],
                     out_exit = 1, out_fs = s'\<rparr>
                | (Inr doc, s') \<Rightarrow>
                    \<lparr>out_stdout = [doc], out_stderr = [], out_exit = 0, out_fs = s'\<rparr>)))"

section \<open>A small concrete environment\<close>

text \<open>
  A toy imaging library and file system, on which the definitions above can be run. A
  file's first three bytes are its format tag, its length is the image's width, and its
  length less three the height; every pixel has the same colour. The encoder refuses an
  image without pixels, and the library cannot allocate more than a million pixels.
\<close>

definition demo_pil :: pil where
  "demo_pil =
     \<lparr>pil_decode = (\<lambda>b.
        if length b < 3 then Inl (ImagingError ''cannot identify image file'')
        else Inr \<lparr>img_format = Some (take 3 b), img_mode = ''RGB'',
                  img_size = (int (length b), int (length b) - 3),
                  img_px = (\<lambda>_. [10, 20, 30])\<rparr>),
      pil_convert = (\<lambda>mode im p. img_px im p @ [255]),
      pil_lanczos = (\<lambda>im sz p. img_px im p),
      pil_blend = (\<lambda>src m dst. src),
      pil_encode_webp = (\<lambda>im q.
        if fst (img_size im) = 0 \<or> snd (img_size im) = 0
        then Inl (ImagingError ''cannot write empty image'', [])
        else Inr (''WEBP'' @ replicate (nat q) (CHR ''q''))),
      pil_alloc = (\<lambda>mode sz.
        if 1000000 < fst sz * snd sz then Some (ImagingError ''out of memory'') else None)\<rparr>"

definition demo_env :: env where
  "demo_env =
     \<lparr>env_pil = demo_pil,
      env_abspath = (\<lambda>p. if p \<noteq> [] \<and> hd p = CHR ''/'' then p else ''/work/'' @ p),
      env_sha256 = (\<lambda>m. [char_of (length m), CHR ''J'']),
      env_now = ''2024-05-06T07:08:09.123456+00:00''\<rparr>"

definition demo_fs :: fs where
  "demo_fs =
     \<lparr>fs_files = [''/work/art.png'' \<mapsto> ''PNG12'', ''/work/old.bmp'' \<mapsto> ''BMP'',
                  ''/work/ .png'' \<mapsto> ''PNG12''],
      fs_dirs = {''/work''}\<rparr>"

definition demo_cli :: cli where
  "demo_cli =
     \<lparr>cli_input = ''art.png'', cli_out_dir = ''out'', cli_mint_max_side = None,
      cli_thumb_max_side = Some 3, cli_quality = Some 7\<rparr>"

definition demo_src :: image where
  "demo_src =
     \<lparr>img_format = Some ''PNG'', img_mode = ''RGB'', img_size = (5, 2),
      img_px = (\<lambda>_. [10, 20, 30])\<rparr>"

section \<open>Facts about the float model\<close>

lemma round_half_even_err: "\<bar>of_int (round_half_even y) - y\<bar> \<le> 1 / 2"
proof -
  have "of_int \<lfloor>y\<rfloor> \<le> y" "y < of_int \<lfloor>y\<rfloor> + 1"
    by linarith+
  then show ?thesis
    by (auto simp: round_half_even_def Let_def)
qed

lemma round_half_even_of_int: "round_half_even (of_int n) = n"
  by (simp add: round_half_even_def)

lemma bitlen_powi_bounds:
  assumes "0 < a"
  shows "2 powi (bitlen a - 1) \<le> (of_int a :: rat)" and "(of_int a :: rat) < 2 powi bitlen a"
proof -
  have pos: "1 \<le> bitlen a"
    using assms by (simp add: bitlen_alt_def)
  have b: "2 ^ nat (bitlen a - 1) \<le> a" "a < 2 ^ nat (bitlen a)"
    using bitlen_bounds [OF assms] by auto
  have "(of_int (2 ^ nat (bitlen a - 1)) :: rat) \<le> of_int a"
    using b(1) by (simp only: of_int_le_iff)
  then show "2 powi (bitlen a - 1) \<le> (of_int a :: rat)"
    using pos by (simp add: power_int_nonneg_exp)
  have "(of_int a :: rat) < of_int (2 ^ nat (bitlen a))"
    using b(2) by (simp only: of_int_less_iff)
  then show "(of_int a :: rat) < 2 powi bitlen a"
    using pos by (simp add: power_int_nonneg_exp)
qed

lemma floor_log2_bounds:
  assumes "0 < q"
  shows "2 powi floor_log2 q \<le> q" and "q < 2 powi (floor_log2 q + 1)"
proof -
  obtain a b where ab: "quotient_of q = (a, b)"
    by (cases "quotient_of q")
  have bpos: "0 < b"
    using ab by (rule quotient_of_denom_pos)
  have q: "q = of_int a / of_int b"
    using ab by (rule quotient_of_div)
  have apos: "0 < a"
    using assms bpos q by (simp add: zero_less_divide_iff)
  define e where "e = bitlen a - bitlen b"
  note A = bitlen_powi_bounds [OF apos] and B = bitlen_powi_bounds [OF bpos]
  have bq: "0 < (of_int b :: rat)"
    using bpos by simp
  have "q * of_int b < 2 powi bitlen a"
    using A(2) q bq by simp
  also have "\<dots> = (2::rat) powi (e + 1) * 2 powi (bitlen b - 1)"
    by (simp add: e_def flip: power_int_add)
  also have "\<dots> \<le> 2 powi (e + 1) * of_int b"
    using B(1) by (simp add: mult_left_mono)
  finally have up: "q < 2 powi (e + 1)"
    using bq by simp
  have "(2::rat) powi (e - 1) * of_int b \<le> 2 powi (e - 1) * 2 powi bitlen b"
    using B(2) by (intro mult_left_mono) (simp_all add: less_imp_le)
  also have "\<dots> = 2 powi (bitlen a - 1)"
    by (simp add: e_def flip: power_int_add)
  also have "\<dots> \<le> q * of_int b"
    using A(1) q bq by simp
  finally have lo: "2 powi (e - 1) \<le> q"
    using bq by simp
  have fl2: "floor_log2 q = (if 2 powi e \<le> q then e else e - 1)"
    by (simp add: floor_log2_def ab e_def Let_def)
  show "2 powi floor_log2 q \<le> q"
    using lo by (simp add: fl2)
  show "q < 2 powi (floor_log2 q + 1)"
    using up by (auto simp: fl2 not_le)
qed

text \<open>Rounding moves a value by at most half the spacing of the grid around it.\<close>

lemma fl_grid_err:
  assumes "q \<noteq> 0"
  shows "\<bar>fl q - q\<bar> \<le> 2 powi (max (floor_log2 \<bar>q\<bar> - 52) (- 1074)) / 2"
proof -
  define k where "k = max (floor_log2 \<bar>q\<bar> - 52) (- 1074)"
  have p: "0 < (2::rat) powi k"
    by (simp add: zero_less_power_int)
  have "fl q - q = (of_int (round_half_even (q / 2 powi k)) - q / 2 powi k) * 2 powi k"
    using assms p by (simp add: fl_def k_def Let_def algebra_simps)
  then have "\<bar>fl q - q\<bar> = \<bar>of_int (round_half_even (q / 2 powi k)) - q / 2 powi k\<bar> * 2 powi k"
    using p by (simp add: abs_mult)
  also have "\<dots> \<le> 1 / 2 * 2 powi k"
    using p round_half_even_err [of "q / 2 powi k"] by (intro mult_right_mono) auto
  finally show ?thesis
    by (simp add: k_def)
qed

text \<open>In the normal range the relative error is at most \<open>2 ^ - 53\<close>.\<close>

lemma fl_rel_err:
  assumes "2 powi (- 1022) \<le> q"
  shows "\<bar>fl q - q\<bar> \<le> q / 2 ^ 53"
proof -
  have qpos: "0 < q"
    using assms by (rule less_le_trans [rotated]) (simp add: zero_less_power_int)
  define e where "e = floor_log2 q"
  have lo: "2 powi e \<le> q" and up: "q < 2 powi (e + 1)"
    using floor_log2_bounds [OF qpos] by (simp_all add: e_def)
  have "(2::rat) powi (- 1022) < 2 powi (e + 1)"
    using assms up by (rule le_less_trans)
  then have "\<not> (2::rat) powi (e + 1) \<le> 2 powi (- 1022)"
    by (simp only: not_le)
  then have "\<not> e + 1 \<le> - 1022"
    using power_int_increasing [of "e + 1" "- 1022" "2::rat", OF _ one_le_numeral] by blast
  then have k: "max (floor_log2 q - 52) (- 1074) = e - 52"
    by (simp add: e_def)
  have "q \<noteq> 0"
    using qpos by simp
  from fl_grid_err [OF this]
  have "\<bar>fl q - q\<bar> \<le> 2 powi (max (floor_log2 q - 52) (- 1074)) / 2"
    by (simp only: abs_of_pos [OF qpos])
  then have "\<bar>fl q - q\<bar> \<le> 2 powi (e - 52) / 2"
    by (simp only: k)
  also have "\<dots> = 2 powi e / 2 ^ 53"
    by (simp add: power_int_diff)
  also have "\<dots> \<le> q / 2 ^ 53"
    using lo by (simp add: divide_right_mono)
  finally show ?thesis .
qed

text \<open>Consequences for the arithmetic of the resizer, for sizes below \<open>2 ^ 31\<close>.\<close>

lemma round_half_even_le:
  assumes "z < of_int n + 1 / 2"
  shows "round_half_even z \<le> n"
proof -
  have "\<bar>of_int (round_half_even z) - z\<bar> \<le> 1 / 2"
    by (rule round_half_even_err)
  then have "of_int (round_half_even z) < (of_int n :: rat) + 1"
    using assms by linarith
  then have "of_int (round_half_even z) < (of_int (n + 1) :: rat)"
    by simp
  then have "round_half_even z < n + 1"
    by (simp only: of_int_less_iff)
  then show ?thesis
    by simp
qed

lemma round_half_even_ge:
  assumes "of_int n - 1 / 2 < z"
  shows "n \<le> round_half_even z"
proof -
  have "\<bar>of_int (round_half_even z) - z\<bar> \<le> 1 / 2"
    by (rule round_half_even_err)
  then have "(of_int n :: rat) - 1 < of_int (round_half_even z)"
    using assms by linarith
  then have "(of_int (n - 1) :: rat) < of_int (round_half_even z)"
    by simp
  then have "n - 1 < round_half_even z"
    by (simp only: of_int_less_iff)
  then show ?thesis
    by simp
qed

lemma fl_of_int:
  assumes "0 < n" and "n < 2 ^ 53"
  shows "fl (of_int n) = of_int n"
proof -
  define q :: rat where "q = of_int n"
  have qpos: "0 < q"
    using assms(1) by (simp add: q_def)
  have q1: "1 \<le> q"
    using assms(1) by (simp add: q_def)
  have "(of_int n :: rat) < of_int (2 ^ 53)"
    using assms(2) by (simp only: of_int_less_iff)
  then have q53: "q < 2 powi 53"
    by (simp add: q_def)
  define e where "e = floor_log2 q"
  have lo: "2 powi e \<le> q" and up: "q < 2 powi (e + 1)"
    using floor_log2_bounds [OF qpos] by (simp_all add: e_def)
  have "(2::rat) powi 0 < 2 powi (e + 1)"
    using up q1 by simp
  then have "\<not> (2::rat) powi (e + 1) \<le> 2 powi 0"
    by (simp only: not_le)
  then have "\<not> e + 1 \<le> 0"
    using power_int_increasing [of "e + 1" 0 "2::rat", OF _ one_le_numeral] by blast
  then have e0: "0 \<le> e"
    by simp
  have "(2::rat) powi e < 2 powi 53"
    using lo q53 by (rule le_less_trans)
  then have "\<not> (2::rat) powi 53 \<le> 2 powi e"
    by (simp only: not_le)
  then have "\<not> 53 \<le> e"
    using power_int_increasing [of 53 e "2::rat", OF _ one_le_numeral] by blast
  then have e52: "e \<le> 52"
    by simp
  define j where "j = nat (52 - e)"
  define k where "k = max (floor_log2 \<bar>q\<bar> - 52) (- 1074)"
  have k: "k = - int j"
    using e0 e52 qpos by (simp add: k_def e_def j_def)
  have pk: "(2::rat) powi k = 1 / 2 ^ j"
    unfolding k by (simp add: power_int_minus_divide)
  have "q / 2 powi k = of_int (n * 2 ^ j)"
    by (simp add: pk q_def)
  then have "round_half_even (q / 2 powi k) = n * 2 ^ j"
    by (simp only: round_half_even_of_int)
  then have "fl q = of_int (n * 2 ^ j) * 2 powi k"
    using qpos by (simp add: fl_def k_def Let_def)
  also have "\<dots> = q"
    by (simp add: pk q_def)
  finally show ?thesis
    by (simp add: q_def)
qed

lemma tiny_le: "(2::rat) powi (- 1022) \<le> 1 / 2 ^ 32"
proof -
  have "(2::rat) powi (- 1022) \<le> 2 powi (- 32)"
    by (rule power_int_increasing) simp_all
  also have "\<dots> = 1 / 2 ^ 32"
    by (simp add: power_int_minus_divide)
  finally show ?thesis .
qed

lemma fl_rel_bounds:
  assumes "1 / 2 ^ 32 \<le> q"
  shows "q * (1 - 1 / 2 ^ 53) \<le> fl q" and "fl q \<le> q * (1 + 1 / 2 ^ 53)"
proof -
  have "2 powi (- 1022) \<le> q"
    using tiny_le assms by (rule order_trans)
  then have "\<bar>fl q - q\<bar> \<le> q / 2 ^ 53"
    by (rule fl_rel_err)
  then have "q - q / 2 ^ 53 \<le> fl q" "fl q \<le> q + q / 2 ^ 53"
    by linarith+
  then show "q * (1 - 1 / 2 ^ 53) \<le> fl q" "fl q \<le> q * (1 + 1 / 2 ^ 53)"
    by (simp_all add: algebra_simps)
qed

lemma ratio_ge:
  assumes "1 \<le> a" and "1 \<le> b" and "b < 2 ^ 31"
  shows "1 / 2 ^ 31 \<le> (of_int a / of_int b :: rat)"
proof -
  have "(of_int b :: rat) < of_int (2 ^ 31)"
    using assms(3) by (simp only: of_int_less_iff)
  then have b: "(of_int b :: rat) \<le> 2 ^ 31" "0 < (of_int b :: rat)"
    using assms(2) by simp_all
  have a: "1 \<le> (of_int a :: rat)"
    using assms(1) by simp
  have "1 / 2 ^ 31 \<le> 1 / (of_int b :: rat)"
    using b by (intro divide_left_mono) simp_all
  also have "\<dots> \<le> of_int a / of_int b"
    using a b by (intro divide_right_mono) simp_all
  finally show ?thesis .
qed

lemma min_fl_bounds:
  assumes "1 / 2 ^ 32 \<le> a" and "a \<le> b"
  shows "a * (1 - 1 / 2 ^ 53) \<le> min (fl a) (fl b)" and "min (fl a) (fl b) \<le> a * (1 + 1 / 2 ^ 53)"
proof -
  have b: "1 / 2 ^ 32 \<le> b"
    using assms by (rule order_trans)
  have "a * (1 - 1 / 2 ^ 53) \<le> b * (1 - 1 / 2 ^ 53)"
    using assms(2) by (rule mult_right_mono) simp
  also have "\<dots> \<le> fl b"
    using b by (rule fl_rel_bounds)
  finally have "a * (1 - 1 / 2 ^ 53) \<le> fl b" .
  moreover have "a * (1 - 1 / 2 ^ 53) \<le> fl a"
    using assms(1) by (rule fl_rel_bounds)
  ultimately show "a * (1 - 1 / 2 ^ 53) \<le> min (fl a) (fl b)"
    by simp
  have "min (fl a) (fl b) \<le> fl a"
    by simp
  also have "\<dots> \<le> a * (1 + 1 / 2 ^ 53)"
    using assms(1) by (rule fl_rel_bounds)
  finally show "min (fl a) (fl b) \<le> a * (1 + 1 / 2 ^ 53)" .
qed

lemma scale_bounds:
  assumes "1 \<le> w" and "w < 2 ^ 31" and "1 \<le> h" and "h < 2 ^ 31" and "1 \<le> S"
  shows "of_int S / of_int (max w h) * (1 - 1 / 2 ^ 53) \<le> contain_scale S w h"
    and "contain_scale S w h \<le> of_int S / of_int (max w h) * (1 + 1 / 2 ^ 53)"
proof -
  define qw :: rat where "qw = of_int S / of_int w"
  define qh :: rat where "qh = of_int S / of_int h"
  have cs: "contain_scale S w h = min (fl qw) (fl qh)"
    by (simp add: contain_scale_def py_truediv_def qw_def qh_def)
  have small: "(1::rat) / 2 ^ 32 \<le> 1 / 2 ^ 31"
    by simp
  have gw: "1 / 2 ^ 32 \<le> qw"
    unfolding qw_def using small ratio_ge [OF assms(5) assms(1) assms(2)] by (rule order_trans)
  have gh: "1 / 2 ^ 32 \<le> qh"
    unfolding qh_def using small ratio_ge [OF assms(5) assms(3) assms(4)] by (rule order_trans)
  have pos: "0 < (of_int w :: rat)" "0 < (of_int h :: rat)" "0 \<le> (of_int S :: rat)"
    using assms by simp_all
  have both: "of_int S / of_int (max w h) * (1 - 1 / 2 ^ 53) \<le> contain_scale S w h \<and>
    contain_scale S w h \<le> of_int S / of_int (max w h) * (1 + 1 / 2 ^ 53)"
  proof (cases "w \<le> h")
    case True
    then have m: "max w h = h"
      by simp
    have "(of_int w :: rat) \<le> of_int h"
      using True by simp
    then have le: "qh \<le> qw"
      unfolding qw_def qh_def using pos by (intro divide_left_mono) simp_all
    show ?thesis
      using min_fl_bounds [OF gh le] by (simp add: cs m qh_def min.commute)
  next
    case False
    then have m: "max w h = w"
      by simp
    have "(of_int h :: rat) \<le> of_int w"
      using False by simp
    then have le: "qw \<le> qh"
      unfolding qw_def qh_def using pos by (intro divide_left_mono) simp_all
    show ?thesis
      using min_fl_bounds [OF gw le] by (simp add: cs m qw_def)
  qed
  from both show "of_int S / of_int (max w h) * (1 - 1 / 2 ^ 53) \<le> contain_scale S w h"
    by (rule conjunct1)
  from both show "contain_scale S w h \<le> of_int S / of_int (max w h) * (1 + 1 / 2 ^ 53)"
    by (rule conjunct2)
qed

lemma of_int_bound31:
  assumes "n < 2 ^ 31"
  shows "(of_int n :: rat) < 2 ^ 31"
proof -
  have "(of_int n :: rat) < of_int (2 ^ 31)"
    using assms by (simp only: of_int_less_iff)
  then show ?thesis
    by simp
qed

lemma mul_round:
  assumes n: "1 \<le> n" "n \<le> m" "m < 2 ^ 31" and S: "1 \<le> S" "S < 2 ^ 31"
    and lo: "of_int S / of_int m * (1 - 1 / 2 ^ 53) \<le> s"
    and hi: "s \<le> of_int S / of_int m * (1 + 1 / 2 ^ 53)"
  shows "py_round (py_mul n s) \<le> S" and "n = m \<Longrightarrow> py_round (py_mul n s) = S"
proof -
  define N :: rat where "N = of_int n"
  define M :: rat where "M = of_int m"
  define R :: rat where "R = of_int S"
  have N1: "1 \<le> N" and NM: "N \<le> M" and R1: "1 \<le> R"
    using n S by (simp_all add: N_def M_def R_def)
  have Mpos: "0 < M"
    using N1 NM by linarith
  have R31: "R < 2 ^ 31"
    unfolding R_def using S(2) by (rule of_int_bound31)
  have "n < 2 ^ 53"
    using n by simp
  then have fln: "fl (of_int n) = N"
    unfolding N_def using n(1) by (intro fl_of_int) simp_all
  have ratio: "1 / 2 ^ 31 \<le> R / M"
    unfolding R_def M_def using S(1) n by (intro ratio_ge) simp_all
  have lo': "R / M * (1 - 1 / 2 ^ 53) \<le> s" and hi': "s \<le> R / M * (1 + 1 / 2 ^ 53)"
    using lo hi by (simp_all add: R_def M_def)
  have "1 / 2 ^ 31 * (1 - 1 / 2 ^ 53) \<le> R / M * (1 - 1 / 2 ^ 53)"
    using ratio by (rule mult_right_mono) simp
  then have s32: "1 / 2 ^ 32 \<le> s"
    using lo' by simp
  then have spos: "0 \<le> s"
    by simp
  define y where "y = N * s"
  have py: "py_round (py_mul n s) = round_half_even (fl y)"
    by (simp add: py_round_def py_mul_def fln y_def)
  have "1 * s \<le> N * s"
    using N1 spos by (rule mult_right_mono)
  then have "s \<le> y"
    by (simp only: y_def mult_1)
  with s32 have y32: "1 / 2 ^ 32 \<le> y"
    by (rule order_trans)
  have "y \<le> M * s"
    unfolding y_def using NM spos by (rule mult_right_mono)
  also have "\<dots> \<le> M * (R / M * (1 + 1 / 2 ^ 53))"
    using hi' Mpos by (intro mult_left_mono) simp_all
  also have "\<dots> = R * (1 + 1 / 2 ^ 53)"
    using Mpos by simp
  finally have yhi: "y \<le> R * (1 + 1 / 2 ^ 53)" .
  have "fl y \<le> y * (1 + 1 / 2 ^ 53)"
    using y32 by (rule fl_rel_bounds)
  also have "\<dots> \<le> R * (1 + 1 / 2 ^ 53) * (1 + 1 / 2 ^ 53)"
    using yhi by (rule mult_right_mono) simp
  also have "\<dots> < R + 1 / 2"
    using R31 R1 by simp
  finally have up: "fl y < of_int S + 1 / 2"
    by (simp add: R_def)
  then show le: "py_round (py_mul n s) \<le> S"
    unfolding py by (rule round_half_even_le)
  show "py_round (py_mul n s) = S" if "n = m"
  proof -
    have "M * (R / M * (1 - 1 / 2 ^ 53)) \<le> M * s"
      using lo' Mpos by (intro mult_left_mono) simp_all
    then have ylo: "R * (1 - 1 / 2 ^ 53) \<le> y"
      using Mpos that by (simp add: y_def N_def M_def)
    have "R - 1 / 2 < R * (1 - 1 / 2 ^ 53) * (1 - 1 / 2 ^ 53)"
      using R31 R1 by simp
    also have "\<dots> \<le> y * (1 - 1 / 2 ^ 53)"
      using ylo by (rule mult_right_mono) simp
    also have "\<dots> \<le> fl y"
      using y32 by (rule fl_rel_bounds)
    finally have "of_int S - 1 / 2 < fl y"
      by (simp add: R_def)
    then have "S \<le> py_round (py_mul n s)"
      unfolding py by (rule round_half_even_ge)
    with le show ?thesis
      by simp
  qed
qed

section \<open>No overflow below the size limit\<close>

lemma no_float_overflow:
  assumes "1 / 2 ^ 32 \<le> q" and "q \<le> 2 ^ 32"
  shows "\<not> float_overflow q"
proof -
  have lo: "q * (1 - 1 / 2 ^ 53) \<le> fl q" and hi: "fl q \<le> q * (1 + 1 / 2 ^ 53)"
    using assms(1) by (rule fl_rel_bounds)+
  have "0 \<le> q * (1 - 1 / 2 ^ 53)"
    using assms(1) by simp
  then have pos: "0 \<le> fl q"
    using lo by (rule order_trans)
  have "q * (1 + 1 / 2 ^ 53) \<le> 2 ^ 32 * (1 + 1 / 2 ^ 53)"
    using assms(2) by (rule mult_right_mono) simp
  with hi have "fl q \<le> 2 ^ 32 * (1 + 1 / 2 ^ 53)"
    by (rule order_trans [rotated 1, rotated])
  also have "\<dots> < 2 ^ 1024"
    by simp
  finally show ?thesis
    using pos by (simp add: float_overflow_def)
qed

lemma mul_arg_bounds:
  assumes n: "1 \<le> n" "n \<le> m" "m < 2 ^ 31" and S: "1 \<le> S" "S < 2 ^ 31"
    and lo: "of_int S / of_int m * (1 - 1 / 2 ^ 53) \<le> (s::rat)"
    and hi: "s \<le> of_int S / of_int m * (1 + 1 / 2 ^ 53)"
  shows "fl (of_int n) = of_int n" and "1 / 2 ^ 32 \<le> of_int n * s" and "of_int n * s \<le> 2 ^ 32"
proof -
  define N :: rat where "N = of_int n"
  define M :: rat where "M = of_int m"
  define R :: rat where "R = of_int S"
  have N1: "1 \<le> N" and NM: "N \<le> M" and R1: "1 \<le> R"
    using n S by (simp_all add: N_def M_def R_def)
  have Mpos: "0 < M"
    using N1 NM by linarith
  have R31: "R < 2 ^ 31"
    unfolding R_def using S(2) by (rule of_int_bound31)
  have "n < 2 ^ 53"
    using n by simp
  then show fln: "fl (of_int n) = of_int n"
    using n(1) by (intro fl_of_int) simp_all
  have ratio: "1 / 2 ^ 31 \<le> R / M"
    unfolding R_def M_def using S(1) n by (intro ratio_ge) simp_all
  have lo': "R / M * (1 - 1 / 2 ^ 53) \<le> s" and hi': "s \<le> R / M * (1 + 1 / 2 ^ 53)"
    using lo hi by (simp_all add: R_def M_def)
  have "1 / 2 ^ 31 * (1 - 1 / 2 ^ 53) \<le> R / M * (1 - 1 / 2 ^ 53)"
    using ratio by (rule mult_right_mono) simp
  then have s32: "1 / 2 ^ 32 \<le> s"
    using lo' by simp
  then have spos: "0 \<le> s"
    by simp
  have "1 * s \<le> N * s"
    using N1 spos by (rule mult_right_mono)
  then have "s \<le> N * s"
    by (simp only: mult_1)
  with s32 show "1 / 2 ^ 32 \<le> of_int n * s"
    unfolding N_def by (rule order_trans)
  have "N * s \<le> M * s"
    using NM spos by (rule mult_right_mono)
  also have "\<dots> \<le> M * (R / M * (1 + 1 / 2 ^ 53))"
    using hi' Mpos by (intro mult_left_mono) simp_all
  also have "\<dots> = R * (1 + 1 / 2 ^ 53)"
    using Mpos by simp
  also have "\<dots> \<le> 2 ^ 32"
    using R31 by simp
  finally show "of_int n * s \<le> 2 ^ 32"
    by (simp add: N_def)
qed

lemma ratio_le:
  assumes "1 \<le> a" and "a < 2 ^ 31" and "1 \<le> b"
  shows "(of_int a / of_int b :: rat) \<le> 2 ^ 32"
proof -
  have a: "(of_int a :: rat) < 2 ^ 31"
    using assms(2) by (rule of_int_bound31)
  have b: "1 \<le> (of_int b :: rat)"
    using assms(3) by simp
  have "(of_int a / of_int b :: rat) \<le> of_int a / 1"
    using b assms(1) by (intro divide_left_mono) simp_all
  then show ?thesis
    using a by simp
qed

lemma float_errors_none:
  assumes "1 \<le> w" and "w < 2 ^ 31" and "1 \<le> h" and "h < 2 ^ 31" and "1 \<le> S" and "S < 2 ^ 31"
  shows "float_errors S w h = None"
proof -
  define s where "s = contain_scale S w h"
  define m where "m = max w h"
  have m31: "m < 2 ^ 31"
    using assms by (simp add: m_def)
  have lo: "of_int S / of_int m * (1 - 1 / 2 ^ 53) \<le> s"
    unfolding s_def m_def
    by (rule scale_bounds(1) [OF assms(1) assms(2) assms(3) assms(4) assms(5)])
  have hi: "s \<le> of_int S / of_int m * (1 + 1 / 2 ^ 53)"
    unfolding s_def m_def
    by (rule scale_bounds(2) [OF assms(1) assms(2) assms(3) assms(4) assms(5)])
  have wm: "w \<le> m" and hm: "h \<le> m"
    by (simp_all add: m_def)
  note W = mul_arg_bounds [OF assms(1) wm m31 assms(5) assms(6) lo hi]
  note H = mul_arg_bounds [OF assms(3) hm m31 assms(5) assms(6) lo hi]
  have small: "(1::rat) / 2 ^ 32 \<le> 1 / 2 ^ 31"
    by simp
  have qw: "\<not> float_overflow (of_int S / of_int w)"
    using order_trans [OF small ratio_ge [OF assms(5) assms(1) assms(2)]]
      ratio_le [OF assms(5) assms(6) assms(1)]
    by (rule no_float_overflow)
  have qh: "\<not> float_overflow (of_int S / of_int h)"
    using order_trans [OF small ratio_ge [OF assms(5) assms(3) assms(4)]]
      ratio_le [OF assms(5) assms(6) assms(3)]
    by (rule no_float_overflow)
  have one: "(1::rat) / 2 ^ 32 \<le> 1"
    by simp
  have cw: "\<not> float_overflow (of_int w)"
  proof (rule no_float_overflow)
    show "1 / 2 ^ 32 \<le> (of_int w :: rat)"
      using assms(1) one by (simp add: order_trans)
    show "(of_int w :: rat) \<le> 2 ^ 32"
      using of_int_bound31 [OF assms(2)] by simp
  qed
  have ch: "\<not> float_overflow (of_int h)"
  proof (rule no_float_overflow)
    show "1 / 2 ^ 32 \<le> (of_int h :: rat)"
      using assms(3) one by (simp add: order_trans)
    show "(of_int h :: rat) \<le> 2 ^ 32"
      using of_int_bound31 [OF assms(4)] by simp
  qed
  have pw: "\<not> float_overflow (fl (of_int w) * s)"
    unfolding W(1) using W(2) W(3) by (rule no_float_overflow)
  have ph: "\<not> float_overflow (fl (of_int h) * s)"
    unfolding H(1) using H(2) H(3) by (rule no_float_overflow)
  show ?thesis
    using qw qh cw ch pw ph by (simp add: float_errors_def s_def Let_def)
qed

section \<open>The square-contain resizer returns a square\<close>

lemma img_size_paste: "img_size (paste lib canvas im box msk) = img_size canvas"
  by (simp add: paste_def)

lemma img_size_convert: "img_size (convert lib im mode) = img_size im"
  by (simp add: convert_def)

lemma contain_out_pos: "1 \<le> fst (contain_out S w h) \<and> 1 \<le> snd (contain_out S w h)"
  by (simp add: contain_out_def Let_def)

lemma render_square_contain_result:
  assumes "img_size src = (w, h)" and "render_square_contain lib src S = Inr canvas"
  shows "float_errors S w h = None \<and>
     resize lib (convert lib src ''RGBA'') (contain_out S w h) =
       Inr \<lparr>img_format = None, img_mode = ''RGBA'', img_size = contain_out S w h,
            img_px = pil_lanczos lib (convert lib src ''RGBA'') (contain_out S w h)\<rparr> \<and>
     canvas =
       paste lib
         \<lparr>img_format = None, img_mode = ''RGBA'', img_size = (S, S), img_px = (\<lambda>_. [0, 0, 0, 0])\<rparr>
         \<lparr>img_format = None, img_mode = ''RGBA'', img_size = contain_out S w h,
          img_px = pil_lanczos lib (convert lib src ''RGBA'') (contain_out S w h)\<rparr>
         (contain_offset S (contain_out S w h))
         \<lparr>img_format = None, img_mode = ''RGBA'', img_size = contain_out S w h,
          img_px = pil_lanczos lib (convert lib src ''RGBA'') (contain_out S w h)\<rparr>"
proof -
  have sz: "img_size (convert lib src ''RGBA'') = (w, h)"
    using assms(1) by (simp add: img_size_convert)
  have md: "img_mode (convert lib src ''RGBA'') = ''RGBA''"
    by (simp add: convert_def)
  show ?thesis
    using assms(2)
    by (auto simp: render_square_contain_def sz md resize_def image_new_def Let_def
        split: if_splits option.splits sum.splits)
qed

lemma render_square_contain_returns:
  assumes "img_size src = (w, h)" and "w \<noteq> 0" and "h \<noteq> 0" and "0 \<le> S"
    and "float_errors S w h = None"
    and "allocate lib ''RGBA'' (contain_out S w h) = None"
    and "allocate lib ''RGBA'' (S, S) = None"
  shows "\<exists>canvas. render_square_contain lib src S = Inr canvas"
proof -
  have sz: "img_size (convert lib src ''RGBA'') = (w, h)"
    using assms(1) by (simp add: img_size_convert)
  have md: "img_mode (convert lib src ''RGBA'') = ''RGBA''"
    by (simp add: convert_def)
  have pos: "\<not> fst (contain_out S w h) \<le> 0" "\<not> snd (contain_out S w h) \<le> 0"
    using contain_out_pos [of S w h] by simp_all
  show ?thesis
    using assms(2-7) pos
    by (simp add: render_square_contain_def sz md resize_def image_new_def Let_def)
qed

lemma demo_float_errors: "float_errors 3 5 2 = None"
  by (rule float_errors_none) simp_all

lemma demo_contain_out: "contain_out 3 5 2 = (3, 1)"
  by code_simp

lemma demo_allocate:
  "allocate demo_pil ''RGBA'' (3, 1) = None" "allocate demo_pil ''RGBA'' (3, 3) = None"
  by (simp_all add: allocate_def demo_pil_def C_INT_MAX_def)


text \<open>
  Claim C2. For a source image whose width and height are at least 1 and a side length
  \<open>S\<close> of at least 1, every image that \<open>render_square_contain\<close> returns is exactly \<open>S\<close>
  by \<open>S\<close> pixels, whatever the aspect ratio of the source. The function raises instead of
  returning when the float arithmetic overflows or the imaging library cannot allocate
  the resized image or the canvas; it does return an image whenever the sizes are below
  \<open>2 ^ 31\<close> and both allocations succeed.
\<close>

theorem render_square_contain_size:
  assumes "img_size src = (w, h)" and "1 \<le> w" and "1 \<le> h" and "1 \<le> S"
  shows "(\<forall>canvas. render_square_contain lib src S = Inr canvas \<longrightarrow> img_size canvas = (S, S)) \<and>
     (w < 2 ^ 31 \<and> h < 2 ^ 31 \<and> S < 2 ^ 31 \<and>
      allocate lib ''RGBA'' (contain_out S w h) = None \<and>
      allocate lib ''RGBA'' (S, S) = None \<longrightarrow>
      (\<exists>canvas. render_square_contain lib src S = Inr canvas))"
proof (intro conjI allI impI)
  fix canvas
  assume "render_square_contain lib src S = Inr canvas"
  from render_square_contain_result [OF assms(1) this]
  have "canvas =
       paste lib
         \<lparr>img_format = None, img_mode = ''RGBA'', img_size = (S, S), img_px = (\<lambda>_. [0, 0, 0, 0])\<rparr>
         \<lparr>img_format = None, img_mode = ''RGBA'', img_size = contain_out S w h,
          img_px = pil_lanczos lib (convert lib src ''RGBA'') (contain_out S w h)\<rparr>
         (contain_offset S (contain_out S w h))
         \<lparr>img_format = None, img_mode = ''RGBA'', img_size = contain_out S w h,
          img_px = pil_lanczos lib (convert lib src ''RGBA'') (contain_out S w h)\<rparr>"
    by blast
  then show "img_size canvas = (S, S)"
    by (simp add: img_size_paste)
next
  assume b: "w < 2 ^ 31 \<and> h < 2 ^ 31 \<and> S < 2 ^ 31 \<and>
      allocate lib ''RGBA'' (contain_out S w h) = None \<and>
      allocate lib ''RGBA'' (S, S) = None"
  then have fe: "float_errors S w h = None"
    using assms by (intro float_errors_none) simp_all
  show "\<exists>canvas. render_square_contain lib src S = Inr canvas"
    using assms b fe by (intro render_square_contain_returns [of src w h]) simp_all
qed


theorem render_square_contain_size_witness:
  "\<exists>canvas. render_square_contain demo_pil demo_src 3 = Inr canvas \<and> img_size canvas = (3, 3)"
proof -
  have sz: "img_size demo_src = (5, 2)"
    by (simp add: demo_src_def)
  note t = render_square_contain_size [OF sz, of 3 demo_pil]
  have "\<exists>canvas. render_square_contain demo_pil demo_src 3 = Inr canvas"
    using t by (simp add: demo_contain_out demo_allocate)
  then obtain canvas where c: "render_square_contain demo_pil demo_src 3 = Inr canvas"
    by blast
  then have "img_size canvas = (3, 3)"
    using t by simp
  with c show ?thesis
    by blast
qed

section \<open>Where the resized image is pasted\<close>

text \<open>
  Claim C8. For a source image whose width and height are at least 1 and a side \<open>S\<close> of
  at least 1, the image that the resizer returns is the transparent \<open>S\<close> by \<open>S\<close> canvas
  onto which the resized image has been pasted with its top-left corner at the integer
  offsets \<open>((S - out_w) div 2, (S - out_h) div 2)\<close>: inside that rectangle a pixel is the
  blend of the resized pixel (through its own alpha) with the transparent pixel, outside
  it is transparent. The padding on the right, \<open>S - out_w - offset_x\<close> columns, exceeds
  the padding on the left, \<open>offset_x\<close> columns, by 0 or 1; likewise bottom and top.
\<close>

theorem render_square_contain_padding:
  assumes "img_size src = (w, h)" and "1 \<le> w" and "1 \<le> h" and "1 \<le> S"
    and "render_square_contain lib src S = Inr canvas"
  shows "(let (out_w, out_h) = contain_out S w h;
              offset_x = (S - out_w) div 2;
              offset_y = (S - out_h) div 2
          in (\<exists>resized. resize lib (convert lib src ''RGBA'') (out_w, out_h) = Inr resized \<and>
                (\<forall>x y. img_px canvas (x, y) =
                   (if offset_x \<le> x \<and> x < offset_x + out_w \<and>
                       offset_y \<le> y \<and> y < offset_y + out_h
                    then pil_blend lib (img_px resized (x - offset_x, y - offset_y))
                           (img_px resized (x - offset_x, y - offset_y)) [0, 0, 0, 0]
                    else [0, 0, 0, 0]))) \<and>
             (S - out_w - offset_x) - offset_x \<in> {0, 1} \<and>
             (S - out_h - offset_y) - offset_y \<in> {0, 1})"
proof -
  obtain out_w out_h where out: "contain_out S w h = (out_w, out_h)"
    by (cases "contain_out S w h")
  define resized where
    "resized = \<lparr>img_format = None, img_mode = ''RGBA'', img_size = (out_w, out_h),
        img_px = pil_lanczos lib (convert lib src ''RGBA'') (out_w, out_h)\<rparr>"
  from render_square_contain_result [OF assms(1) assms(5)]
  have rs: "resize lib (convert lib src ''RGBA'') (out_w, out_h) = Inr resized"
    and cv: "canvas =
       paste lib
         \<lparr>img_format = None, img_mode = ''RGBA'', img_size = (S, S), img_px = (\<lambda>_. [0, 0, 0, 0])\<rparr>
         resized ((S - out_w) div 2, (S - out_h) div 2) resized"
    by (simp_all add: out resized_def contain_offset_def)
  have px: "\<forall>x y. img_px canvas (x, y) =
      (if (S - out_w) div 2 \<le> x \<and> x < (S - out_w) div 2 + out_w \<and>
          (S - out_h) div 2 \<le> y \<and> y < (S - out_h) div 2 + out_h
       then pil_blend lib (img_px resized (x - (S - out_w) div 2, y - (S - out_h) div 2))
              (img_px resized (x - (S - out_w) div 2, y - (S - out_h) div 2)) [0, 0, 0, 0]
       else [0, 0, 0, 0])"
    unfolding cv by (simp add: paste_def resized_def)
  have pw: "(S - out_w - (S - out_w) div 2) - (S - out_w) div 2 \<in> {0, 1}"
    by (simp add: insert_iff) presburger
  have ph: "(S - out_h - (S - out_h) div 2) - (S - out_h) div 2 \<in> {0, 1}"
    by (simp add: insert_iff) presburger
  from rs px have "\<exists>r. resize lib (convert lib src ''RGBA'') (out_w, out_h) = Inr r \<and>
      (\<forall>x y. img_px canvas (x, y) =
      (if (S - out_w) div 2 \<le> x \<and> x < (S - out_w) div 2 + out_w \<and>
          (S - out_h) div 2 \<le> y \<and> y < (S - out_h) div 2 + out_h
       then pil_blend lib (img_px r (x - (S - out_w) div 2, y - (S - out_h) div 2))
              (img_px r (x - (S - out_w) div 2, y - (S - out_h) div 2)) [0, 0, 0, 0]
       else [0, 0, 0, 0]))"
    by blast
  then show ?thesis
    unfolding out using pw ph by (simp add: Let_def)
qed


theorem render_square_contain_padding_witness:
  "\<exists>canvas. render_square_contain demo_pil demo_src 3 = Inr canvas \<and>
     (let (out_w, out_h) = contain_out 3 5 2;
          offset_x = (3 - out_w) div 2;
          offset_y = (3 - out_h) div 2
      in (\<exists>resized. resize demo_pil (convert demo_pil demo_src ''RGBA'') (out_w, out_h) = Inr resized \<and>
            (\<forall>x y. img_px canvas (x, y) =
               (if offset_x \<le> x \<and> x < offset_x + out_w \<and>
                   offset_y \<le> y \<and> y < offset_y + out_h
                then pil_blend demo_pil (img_px resized (x - offset_x, y - offset_y))
                       (img_px resized (x - offset_x, y - offset_y)) [0, 0, 0, 0]
                else [0, 0, 0, 0]))) \<and>
         (3 - out_w - offset_x) - offset_x \<in> {0, 1} \<and>
         (3 - out_h - offset_y) - offset_y \<in> {0, 1})"
proof -
  have sz: "img_size demo_src = (5, 2)"
    by (simp add: demo_src_def)
  have "\<exists>canvas. render_square_contain demo_pil demo_src 3 = Inr canvas"
    by (rule render_square_contain_returns [OF sz])
      (simp_all add: demo_float_errors demo_contain_out demo_allocate)
  then obtain canvas where c: "render_square_contain demo_pil demo_src 3 = Inr canvas"
    by blast
  show ?thesis
    using c render_square_contain_padding [OF sz _ _ _ c] by (intro exI [of _ canvas]) simp
qed


section \<open>Sides for which the resizer raises\<close>

text \<open>A side so large that \<open>side / src_w\<close> is no float makes line 43 raise; a side that
  a float cannot hold exactly may pass lines 43 to 45 and is then refused by the imaging
  library at line 46.\<close>

lemma float_overflow_big:
  assumes "2 ^ 1025 \<le> q"
  shows "float_overflow q"
proof -
  have "(1::rat) / 2 ^ 32 \<le> 2 ^ 1025"
    by simp
  then have "1 / 2 ^ 32 \<le> q"
    using assms by (rule order_trans)
  then have lo: "q * (1 - 1 / 2 ^ 53) \<le> fl q"
    by (rule fl_rel_bounds)
  have "(2::rat) ^ 1024 \<le> 2 ^ 1025 * (1 - 1 / 2 ^ 53)"
    by simp
  also have "\<dots> \<le> q * (1 - 1 / 2 ^ 53)"
    using assms by (rule mult_right_mono) simp
  also note lo
  finally have "2 ^ 1024 \<le> fl q" .
  then show ?thesis
    by (simp add: float_overflow_def)
qed

lemma render_square_contain_overflow:
  assumes "img_size src = (w, h)" and "1 \<le> w" and "1 \<le> h" and "2 ^ 1025 * w \<le> S"
  shows "render_square_contain lib src S =
     Inl (OverflowError ''integer division result too large for a float'')"
proof -
  have wpos: "0 < (of_int w :: rat)"
    using assms(2) by simp
  have "(of_int (2 ^ 1025 * w) :: rat) \<le> of_int S"
    using assms(4) by (simp only: of_int_le_iff)
  then have "2 ^ 1025 * (of_int w :: rat) \<le> of_int S"
    by simp
  then have "2 ^ 1025 \<le> (of_int S / of_int w :: rat)"
    using wpos by (simp add: pos_le_divide_eq)
  then have "float_overflow (of_int S / of_int w)"
    by (rule float_overflow_big)
  then have "float_errors S w h =
      Some (OverflowError ''integer division result too large for a float'')"
    by (simp add: float_errors_def)
  then show ?thesis
    using assms(1-3) by (simp add: render_square_contain_def img_size_convert)
qed

lemma small_out_2_53: "float_errors 9007199254740993 1 1 = None"
  by code_simp

lemma contain_out_2_53:
  "contain_out 9007199254740993 1 1 = (9007199254740992, 9007199254740992)"
  by code_simp

lemma render_square_contain_refuses_resize:
  assumes "img_size src = (1, 1)"
  shows "render_square_contain lib src 9007199254740993 =
     Inl (OverflowError ''signed integer is greater than maximum'')"
  using assms
  by (simp add: render_square_contain_def img_size_convert small_out_2_53 contain_out_2_53
      resize_def allocate_def C_INT_MAX_def c_int_error_def)

section \<open>The resized image lies within the canvas\<close>

text \<open>
  Claim C10, as stated, for every side of at least 1: it fails for sides that a float
  cannot hold exactly. With a 1 by 1 source and \<open>S = 2 ^ 53 + 1\<close> the quotient
  \<open>S / 1\<close> rounds to \<open>2 ^ 53\<close>, so both computed dimensions are \<open>S - 1\<close> and neither
  axis fills the canvas.
\<close>

theorem contain_out_huge_side:
  "(1::int) \<le> 1 \<and> (1::int) \<le> 9007199254740993 \<and>
   contain_out 9007199254740993 1 1 = (9007199254740992, 9007199254740992)"
  by code_simp

text \<open>
  Claim C10, amended: for a source whose width and height lie between 1 and \<open>2 ^ 31 - 1\<close>
  (the sizes the imaging library can hold) and a side \<open>S\<close> in the same range, the computed
  inner dimensions satisfy \<open>1 \<le> out_w \<le> S\<close> and \<open>1 \<le> out_h \<le> S\<close>, both paste
  offsets are non-negative and the pasted rectangle ends inside the canvas, and along the
  longer axis of the source the inner dimension is exactly \<open>S\<close> and the offset is 0.
\<close>

theorem contain_out_within_canvas:
  assumes "1 \<le> w" and "w < 2 ^ 31" and "1 \<le> h" and "h < 2 ^ 31" and "1 \<le> S" and "S < 2 ^ 31"
  shows "(let (out_w, out_h) = contain_out S w h;
              (offset_x, offset_y) = contain_offset S (out_w, out_h)
          in 1 \<le> out_w \<and> out_w \<le> S \<and> 1 \<le> out_h \<and> out_h \<le> S \<and>
             0 \<le> offset_x \<and> offset_x + out_w \<le> S \<and> 0 \<le> offset_y \<and> offset_y + out_h \<le> S \<and>
             (h \<le> w \<longrightarrow> out_w = S \<and> offset_x = 0) \<and>
             (w \<le> h \<longrightarrow> out_h = S \<and> offset_y = 0))"
proof -
  define s where "s = contain_scale S w h"
  define m where "m = max w h"
  have m31: "m < 2 ^ 31"
    using assms by (simp add: m_def)
  have lo: "of_int S / of_int m * (1 - 1 / 2 ^ 53) \<le> s"
    unfolding s_def m_def
    by (rule scale_bounds(1) [OF assms(1) assms(2) assms(3) assms(4) assms(5)])
  have hi: "s \<le> of_int S / of_int m * (1 + 1 / 2 ^ 53)"
    unfolding s_def m_def
    by (rule scale_bounds(2) [OF assms(1) assms(2) assms(3) assms(4) assms(5)])
  have wm: "w \<le> m" and hm: "h \<le> m"
    by (simp_all add: m_def)
  note W = mul_round [OF assms(1) wm m31 assms(5) assms(6) lo hi]
  note H = mul_round [OF assms(3) hm m31 assms(5) assms(6) lo hi]
  define out_w where "out_w = max 1 (py_round (py_mul w s))"
  define out_h where "out_h = max 1 (py_round (py_mul h s))"
  have out: "contain_out S w h = (out_w, out_h)"
    by (simp add: contain_out_def out_w_def out_h_def s_def Let_def)
  have w1: "1 \<le> out_w" and wS: "out_w \<le> S"
    using W(1) assms(5) by (simp_all add: out_w_def)
  have h1: "1 \<le> out_h" and hS: "out_h \<le> S"
    using H(1) assms(5) by (simp_all add: out_h_def)
  have weq: "out_w = S" if "h \<le> w"
  proof -
    from that have "w = m"
      by (simp add: m_def)
    then show ?thesis
      using W(2) assms(5) by (simp add: out_w_def)
  qed
  have heq: "out_h = S" if "w \<le> h"
  proof -
    from that have "h = m"
      by (simp add: m_def)
    then show ?thesis
      using H(2) assms(5) by (simp add: out_h_def)
  qed
  have ox: "0 \<le> (S - out_w) div 2 \<and> (S - out_w) div 2 + out_w \<le> S"
    using wS by presburger
  have oy: "0 \<le> (S - out_h) div 2 \<and> (S - out_h) div 2 + out_h \<le> S"
    using hS by presburger
  show ?thesis
    unfolding out using w1 wS h1 hS ox oy weq heq
    by (simp add: contain_offset_def)
qed


theorem contain_out_within_canvas_witness:
  "(let (out_w, out_h) = contain_out 3 5 2;
        (offset_x, offset_y) = contain_offset 3 (out_w, out_h)
    in 1 \<le> out_w \<and> out_w \<le> 3 \<and> 1 \<le> out_h \<and> out_h \<le> 3 \<and>
       0 \<le> offset_x \<and> offset_x + out_w \<le> 3 \<and> 0 \<le> offset_y \<and> offset_y + out_h \<le> 3 \<and>
       (2 \<le> (5::int) \<longrightarrow> out_w = 3 \<and> offset_x = 0) \<and>
       ((5::int) \<le> 2 \<longrightarrow> out_h = 3 \<and> offset_y = 0)) \<and>
   contain_out 3 5 2 = (3, 1) \<and> contain_offset 3 (3, 1) = (0, 1)"
proof (intro conjI)
  show "(let (out_w, out_h) = contain_out 3 5 2;
        (offset_x, offset_y) = contain_offset 3 (out_w, out_h)
    in 1 \<le> out_w \<and> out_w \<le> 3 \<and> 1 \<le> out_h \<and> out_h \<le> 3 \<and>
       0 \<le> offset_x \<and> offset_x + out_w \<le> 3 \<and> 0 \<le> offset_y \<and> offset_y + out_h \<le> 3 \<and>
       (2 \<le> (5::int) \<longrightarrow> out_w = 3 \<and> offset_x = 0) \<and>
       ((5::int) \<le> 2 \<longrightarrow> out_h = 3 \<and> offset_y = 0))"
    by (rule contain_out_within_canvas [of 5 2 3]) simp_all
  show "contain_out 3 5 2 = (3, 1)"
    by code_simp
  show "contain_offset 3 (3, 1) = (0, 1)"
    by code_simp
qed

section \<open>Facts about the script and its small environment\<close>

lemma demo_contain_out_mint: "contain_out 5 5 2 = (5, 2)"
  by code_simp

lemma allowed_keys:
  "map_of ALLOWED_MIME fmt =
     (if fmt = ''JPEG'' then Some ''image/jpeg''
      else if fmt = ''PNG'' then Some ''image/png''
      else if fmt = ''WEBP'' then Some ''image/webp''
      else if fmt = ''GIF'' then Some ''image/gif''
      else None)"
  by (simp add: ALLOWED_MIME_def)

lemma unsupported_neq_invalid: "unsupported fmt \<noteq> invalid_dimensions"
  by (simp add: unsupported_def invalid_dimensions_def)


lemma save_webp_ok:
  assumes "save_webp lib im p q s = (Inr u, s')"
  shows "\<exists>b. pil_encode_webp lib im q = Inr b \<and> s' = s\<lparr>fs_files := (fs_files s)(p \<mapsto> b)\<rparr>"
  using assms by (auto simp: save_webp_def split: sum.splits prod.splits)

lemma main_success:
  assumes "main env a s = (Inr doc, s')"
  shows "\<exists>s1 r mint_enc thumb_enc original_bytes mint_bytes thumb_bytes.
     makedirs s (env_abspath env (arg_out_dir a)) = Inr s1 \<and>
     load_and_render (env_pil env) a s1 (env_abspath env (arg_input a)) = Inr r \<and>
     pil_encode_webp (env_pil env) (r_mint_img r) (arg_quality a) = Inr mint_enc \<and>
     pil_encode_webp (env_pil env) (r_thumb_img r) (arg_quality a) = Inr thumb_enc \<and>
     s' = s1\<lparr>fs_files := (fs_files s1)
            (path_join (env_abspath env (arg_out_dir a)) ''mint.webp'' \<mapsto> mint_enc,
             path_join (env_abspath env (arg_out_dir a)) ''thumb.webp'' \<mapsto> thumb_enc)\<rparr> \<and>
     read_file s' (env_abspath env (arg_input a)) = Inr original_bytes \<and>
     read_file s' (path_join (env_abspath env (arg_out_dir a)) ''mint.webp'') = Inr mint_bytes \<and>
     read_file s' (path_join (env_abspath env (arg_out_dir a)) ''thumb.webp'') = Inr thumb_bytes \<and>
     doc = build_result (env_abspath env (arg_out_dir a)) (env_abspath env (arg_input a))
             (path_join (env_abspath env (arg_out_dir a)) ''mint.webp'')
             (path_join (env_abspath env (arg_out_dir a)) ''thumb.webp'')
             (add_title (env_abspath env (arg_input a))
                (build_meta env (env_abspath env (arg_input a)) r original_bytes mint_bytes
                   thumb_bytes))"
  using assms
  by (auto simp: main_def Let_def split: sum.splits prod.splits dest!: save_webp_ok)

declare chunks_of.simps [simp del]

declare hash_chunks.simps [simp del]

lemma hash_chunks_eq: "hash_chunks h rest = h @ rest"
proof (induction h rest rule: hash_chunks.induct)
  case (1 h rest)
  show ?case
  proof (cases "take CHUNK rest = []")
    case True
    then have "rest = []"
      by (simp add: CHUNK_def)
    then show ?thesis
      by (subst hash_chunks.simps) simp
  next
    case False
    then have "hash_chunks h rest = hash_chunks (h @ take CHUNK rest) (drop CHUNK rest)"
      by (subst hash_chunks.simps) (simp add: Let_def)
    also have "\<dots> = (h @ take CHUNK rest) @ drop CHUNK rest"
      using False by (intro "1.IH") simp_all
    finally show ?thesis
      by simp
  qed
qed

lemma chunks_of_Nil: "chunks_of [] = []"
  by (subst chunks_of.simps) simp

lemma chunks_of_step:
  "take CHUNK rest \<noteq> [] \<Longrightarrow> chunks_of rest = take CHUNK rest # chunks_of (drop CHUNK rest)"
  by (subst chunks_of.simps) (simp add: Let_def)

lemma chunks_of_props:
  "concat (chunks_of rest) = rest \<and>
   (\<forall>c \<in> set (chunks_of rest). c \<noteq> [] \<and> length c \<le> CHUNK) \<and>
   (\<forall>c \<in> set (butlast (chunks_of rest)). length c = CHUNK)"
proof (induction rest rule: chunks_of.induct)
  case (1 rest)
  show ?case
  proof (cases "take CHUNK rest = []")
    case True
    then have "rest = []"
      by (simp add: CHUNK_def)
    then show ?thesis
      by (simp only: chunks_of_Nil) simp
  next
    case False
    note eq = chunks_of_step [OF False]
    note IH = "1.IH" [OF refl False]
    have full: "length (take CHUNK rest) = CHUNK" if "chunks_of (drop CHUNK rest) \<noteq> []"
    proof -
      from that have "drop CHUNK rest \<noteq> []"
        using chunks_of_Nil by fastforce
      then show ?thesis
        by simp
    qed
    from IH have ih1: "concat (chunks_of (drop CHUNK rest)) = drop CHUNK rest"
      by (rule conjunct1)
    from IH have ih2: "\<forall>c \<in> set (chunks_of (drop CHUNK rest)). c \<noteq> [] \<and> length c \<le> CHUNK"
      by (rule conjunct1 [OF conjunct2])
    from IH have ih3: "\<forall>c \<in> set (butlast (chunks_of (drop CHUNK rest))). length c = CHUNK"
      by (rule conjunct2 [OF conjunct2])
    have c1: "concat (chunks_of rest) = rest"
      by (simp only: eq concat.simps ih1 append_take_drop_id)
    have c2: "\<forall>c \<in> set (chunks_of rest). c \<noteq> [] \<and> length c \<le> CHUNK"
      unfolding eq using ih2 False by simp
    have c3: "\<forall>c \<in> set (butlast (chunks_of rest)). length c = CHUNK"
      unfolding eq using ih3 full by (simp split: if_splits)
    from c1 c2 c3 show ?thesis
      by blast
  qed
qed

lemma hash_chunks_feeds_chunks: "hash_chunks h rest = foldl (@) h (chunks_of rest)"
proof (induction h rest rule: hash_chunks.induct)
  case (1 h rest)
  show ?case
  proof (cases "take CHUNK rest = []")
    case True
    then show ?thesis
      by (subst hash_chunks.simps, subst chunks_of.simps) simp
  next
    case False
    have "hash_chunks h rest = hash_chunks (h @ take CHUNK rest) (drop CHUNK rest)"
      using False by (subst hash_chunks.simps) (simp add: Let_def)
    also have "\<dots> = foldl (@) (h @ take CHUNK rest) (chunks_of (drop CHUNK rest))"
      using False by (intro "1.IH") simp_all
    also have "\<dots> = foldl (@) h (chunks_of rest)"
      by (simp only: chunks_of_step [OF False] foldl.simps)
    finally show ?thesis .
  qed
qed

lemma hex_digit_lower: "hex_digit n \<in> set ''0123456789abcdef''"
proof -
  have "n mod 16 < length ''0123456789abcdef''"
    by simp
  then show ?thesis
    unfolding hex_digit_def by (rule nth_mem)
qed

lemma hex_of_lower: "set (hex_of d) \<subseteq> set ''0123456789abcdef''"
proof
  fix x
  assume "x \<in> set (hex_of d)"
  then obtain n where "x = hex_digit n"
    by (auto simp: hex_of_def)
  then show "x \<in> set ''0123456789abcdef''"
    by (simp only: hex_digit_lower)
qed

lemma length_hex_of: "length (hex_of d) = 2 * length d"
  by (induction d) (simp_all add: hex_of_def)

lemma demo_validated:
  "validate_input \<lparr>img_format = Some ''PNG'', img_mode = ''RGB'', img_size = (5, 2), img_px = px\<rparr> =
     Inr (''image/png'', 5, 2)"
  by (simp add: validate_input_def format_tag_def py_upper_def allowed_keys Let_def)

lemma demo_render:
  assumes "img_size src = (5, 2)" and "S = 5 \<or> S = 3"
  shows "\<exists>canvas. render_square_contain demo_pil src S = Inr canvas \<and> img_size canvas = (S, S)"
proof -
  have fe: "float_errors S 5 2 = None"
    using assms(2) by (intro float_errors_none) auto
  have "fst (contain_out S 5 2) \<le> S \<and> snd (contain_out S 5 2) \<le> S"
    using assms(2) by (auto simp: demo_contain_out demo_contain_out_mint)
  moreover have "1 \<le> fst (contain_out S 5 2) \<and> 1 \<le> snd (contain_out S 5 2)"
    by (rule contain_out_pos)
  ultimately have "fst (contain_out S 5 2) * snd (contain_out S 5 2) \<le> 25"
    using assms(2) by (auto simp: demo_contain_out demo_contain_out_mint)
  then have a1: "allocate demo_pil ''RGBA'' (contain_out S 5 2) = None"
    using assms(2) by (auto simp: allocate_def demo_pil_def C_INT_MAX_def demo_contain_out demo_contain_out_mint)
  have a2: "allocate demo_pil ''RGBA'' (S, S) = None"
    using assms(2) by (auto simp: allocate_def demo_pil_def C_INT_MAX_def)
  have "\<exists>canvas. render_square_contain demo_pil src S = Inr canvas"
    using assms fe a1 a2 by (intro render_square_contain_returns [of src 5 2]) auto
  then obtain canvas where c: "render_square_contain demo_pil src S = Inr canvas"
    by blast
  from render_square_contain_result [OF assms(1) c] have "img_size canvas = (S, S)"
    by (auto simp: img_size_paste)
  with c show ?thesis
    by blast
qed

lemma demo_rendered_any:
  assumes "fs_files s p = Some ''PNG12''"
  shows "\<exists>r. load_and_render demo_pil (parse_args (demo_cli\<lparr>cli_input := n\<rparr>)) s p = Inr r \<and>
        r_mint_side r = 5 \<and> r_thumb_side r = 3 \<and> img_size (r_mint_img r) = (5, 5) \<and>
        img_size (r_thumb_img r) = (3, 3)"
proof -
  define im where
    "im = \<lparr>img_format = Some ''PNG'', img_mode = ''RGB'', img_size = (5, 2),
        img_px = (\<lambda>_. [10, 20, 30])\<rparr>"
  have op: "image_open demo_pil s p = Inr im"
    using assms by (simp add: image_open_def read_file_def demo_pil_def im_def)
  have va: "validate_input im = Inr (''image/png'', 5, 2)"
    unfolding im_def by (rule demo_validated)
  have sz: "img_size im = (5, 2)"
    by (simp add: im_def)
  obtain c5 where c5: "render_square_contain demo_pil im 5 = Inr c5" "img_size c5 = (5, 5)"
    using demo_render [OF sz, of 5] by auto
  obtain c3 where c3: "render_square_contain demo_pil im 3 = Inr c3" "img_size c3 = (3, 3)"
    using demo_render [OF sz, of 3] by auto
  show ?thesis
    by (simp add: load_and_render_def op va parse_args_def demo_cli_def MAX_MINT_DIM_def c5 c3)
qed

lemma demo_main_ok_path:
  assumes ab: "env_abspath demo_env n = p"
    and fl0: "fs_files demo_fs p = Some ''PNG12''"
    and ne: "p \<noteq> ''/work/out/mint.webp''" "p \<noteq> ''/work/out/thumb.webp''"
  shows "\<exists>doc s'. main demo_env (parse_args (demo_cli\<lparr>cli_input := n\<rparr>)) demo_fs = (Inr doc, s')"
proof -
  define s1 where "s1 = demo_fs\<lparr>fs_dirs := insert ''/work/out'' (fs_dirs demo_fs)\<rparr>"
  have f: "fs_files s1 p = Some ''PNG12''"
    using fl0 by (simp add: s1_def)
  obtain r where r:
    "load_and_render demo_pil (parse_args (demo_cli\<lparr>cli_input := n\<rparr>)) s1 p = Inr r"
    "img_size (r_mint_img r) = (5, 5)" "img_size (r_thumb_img r) = (3, 3)"
    using demo_rendered_any [OF f] by blast
  have a: "env_abspath demo_env ''out'' = ''/work/out''" "env_pil demo_env = demo_pil"
    by (simp_all add: demo_env_def)
  have p: "arg_input (parse_args (demo_cli\<lparr>cli_input := n\<rparr>)) = n"
    "arg_out_dir (parse_args (demo_cli\<lparr>cli_input := n\<rparr>)) = ''out''"
    "arg_quality (parse_args (demo_cli\<lparr>cli_input := n\<rparr>)) = 7"
    by (simp_all add: parse_args_def demo_cli_def)
  have mk: "makedirs demo_fs ''/work/out'' = Inr s1"
    by (simp add: makedirs_def demo_fs_def s1_def)
  have enc: "pil_encode_webp demo_pil (r_mint_img r) 7 = Inr ''WEBPqqqqqqq''"
    "pil_encode_webp demo_pil (r_thumb_img r) 7 = Inr ''WEBPqqqqqqq''"
    using r(2,3) by (simp_all add: demo_pil_def eval_nat_numeral)
  show ?thesis
    using ne
    by (simp add: main_def ab a p mk r(1) enc save_webp_def path_join_def read_file_def f Let_def)
qed

lemma demo_main_ok_art:
  "\<exists>doc s'. main demo_env (parse_args (demo_cli\<lparr>cli_input := ''art.png''\<rparr>)) demo_fs = (Inr doc, s')"
  by (rule demo_main_ok_path [where p = "''/work/art.png''"])
    (simp_all add: demo_env_def demo_fs_def)

lemma demo_main_ok_blank:
  "\<exists>doc s'. main demo_env (parse_args (demo_cli\<lparr>cli_input := '' .png''\<rparr>)) demo_fs = (Inr doc, s')"
  by (rule demo_main_ok_path [where p = "''/work/ .png''"])
    (simp_all add: demo_env_def demo_fs_def)

lemma path_join_webp_distinct: "path_join d ''mint.webp'' \<noteq> path_join d ''thumb.webp''"
  by (simp add: path_join_def)

lemma jget_meta: "jget ''meta'' (build_result od ip mp tp meta) = Some (JObj meta)"
  by (simp add: build_result_def)

lemma map_of_add_title:
  "map_of (add_title ip (build_meta env ip r ob mb tb)) k =
     (if k = ''title'' then (if title_stem ip \<noteq> [] then Some (JStr (title_stem ip)) else None)
      else map_of (build_meta env ip r ob mb tb) k)"
  by (simp add: add_title_def build_meta_def Let_def)

section \<open>The input validator\<close>

text \<open>
  Claim C4, as stated: the dimension error is not raised exactly when the width or the
  height is below 1. The format is checked first, so an image of an unsupported format
  with a height of 0 fails with the unsupported-format error.
\<close>

theorem validate_input_format_first:
  "snd (img_size \<lparr>img_format = Some ''BMP'', img_mode = ''RGB'', img_size = (3, 0),
                   img_px = (\<lambda>_. [10, 20, 30])\<rparr>) < 1 \<and>
   validate_input \<lparr>img_format = Some ''BMP'', img_mode = ''RGB'', img_size = (3, 0),
                    img_px = (\<lambda>_. [10, 20, 30])\<rparr> =
     Inl (ValueError ''Unsupported input format: BMP'') \<and>
   validate_input \<lparr>img_format = Some ''BMP'', img_mode = ''RGB'', img_size = (3, 0),
                    img_px = (\<lambda>_. [10, 20, 30])\<rparr> \<noteq>
     Inl (ValueError ''Invalid source dimensions'')"
  by (simp add: validate_input_def format_tag_def py_upper_def allowed_keys unsupported_def
      Let_def)

text \<open>
  Claim C4, amended. With the format tag taken in upper case (a missing tag counts as
  empty): the validator fails with the unsupported-format error exactly when the tag is
  not one of JPEG, PNG, WEBP, GIF; it fails with the invalid-dimensions error exactly when
  the tag is one of these and the width or the height is below 1. Both errors are
  \<open>ValueError\<close>s, and their messages differ.
\<close>

theorem validate_input_errors:
  "(validate_input im = Inl (unsupported (format_tag im)) \<longleftrightarrow>
      format_tag im \<notin> {''JPEG'', ''PNG'', ''WEBP'', ''GIF''}) \<and>
   (validate_input im = Inl invalid_dimensions \<longleftrightarrow>
      format_tag im \<in> {''JPEG'', ''PNG'', ''WEBP'', ''GIF''} \<and>
      (fst (img_size im) < 1 \<or> snd (img_size im) < 1)) \<and>
   (\<exists>m. unsupported (format_tag im) = ValueError m) \<and>
   (\<exists>m. invalid_dimensions = ValueError m) \<and>
   unsupported (format_tag im) \<noteq> invalid_dimensions"
proof -
  obtain w h where sz: "img_size im = (w, h)"
    by (cases "img_size im")
  have neq: "unsupported (format_tag im) \<noteq> invalid_dimensions"
    by (rule unsupported_neq_invalid)
  show ?thesis
    using neq neq [symmetric]
    by (auto simp: validate_input_def allowed_keys sz Let_def unsupported_def invalid_dimensions_def)
qed

lemma py_upper_bmp: "py_upper ''bmp'' = ''BMP''"
  by code_simp

theorem validate_input_errors_witness:
  "validate_input \<lparr>img_format = Some ''bmp'', img_mode = ''RGB'', img_size = (3, 2),
                    img_px = (\<lambda>_. [10, 20, 30])\<rparr> =
     Inl (ValueError ''Unsupported input format: BMP'') \<and>
   validate_input \<lparr>img_format = Some ''GIF'', img_mode = ''P'', img_size = (0, 2),
                    img_px = (\<lambda>_. [7])\<rparr> =
     Inl (ValueError ''Invalid source dimensions'')"
proof
  show "validate_input \<lparr>img_format = Some ''bmp'', img_mode = ''RGB'', img_size = (3, 2),
                    img_px = (\<lambda>_. [10, 20, 30])\<rparr> =
     Inl (ValueError ''Unsupported input format: BMP'')"
    using validate_input_errors [of "\<lparr>img_format = Some ''bmp'', img_mode = ''RGB'',
      img_size = (3, 2), img_px = (\<lambda>_. [10, 20, 30])\<rparr>"] py_upper_bmp
    by (simp add: format_tag_def unsupported_def)
  show "validate_input \<lparr>img_format = Some ''GIF'', img_mode = ''P'', img_size = (0, 2),
                    img_px = (\<lambda>_. [7])\<rparr> =
     Inl (ValueError ''Invalid source dimensions'')"
    using validate_input_errors [of "\<lparr>img_format = Some ''GIF'', img_mode = ''P'',
      img_size = (0, 2), img_px = (\<lambda>_. [7])\<rparr>"]
    by (simp add: format_tag_def py_upper_def invalid_dimensions_def)
qed

section \<open>The manifest\<close>

text \<open>
  Claim C5. Whenever a run succeeds, the manifest's field \<open>meta.mint.quality\<close> is the
  literal \<open>0.85\<close>, whatever the value of \<open>--quality\<close>, while the two files written are
  the encodings of the two renditions at the quality given by \<open>--quality\<close>.
\<close>

theorem manifest_quality_literal:
  assumes "main env a s = (Inr doc, s')"
  shows "jpath [''meta'', ''mint'', ''quality''] doc = Some (JFloat (85 / 100)) \<and>
     (\<exists>r mint_enc thumb_enc.
        load_and_render (env_pil env) a
          (s\<lparr>fs_dirs := insert (env_abspath env (arg_out_dir a)) (fs_dirs s)\<rparr>)
          (env_abspath env (arg_input a)) = Inr r \<and>
        pil_encode_webp (env_pil env) (r_mint_img r) (arg_quality a) = Inr mint_enc \<and>
        pil_encode_webp (env_pil env) (r_thumb_img r) (arg_quality a) = Inr thumb_enc \<and>
        fs_files s' (path_join (env_abspath env (arg_out_dir a)) ''mint.webp'') = Some mint_enc \<and>
        fs_files s' (path_join (env_abspath env (arg_out_dir a)) ''thumb.webp'') = Some thumb_enc)"
proof -
  from main_success [OF assms] obtain s1 r mint_enc thumb_enc original_bytes mint_bytes thumb_bytes
    where mk: "makedirs s (env_abspath env (arg_out_dir a)) = Inr s1"
      and lr: "load_and_render (env_pil env) a s1 (env_abspath env (arg_input a)) = Inr r"
      and e1: "pil_encode_webp (env_pil env) (r_mint_img r) (arg_quality a) = Inr mint_enc"
      and e2: "pil_encode_webp (env_pil env) (r_thumb_img r) (arg_quality a) = Inr thumb_enc"
      and s': "s' = s1\<lparr>fs_files := (fs_files s1)
            (path_join (env_abspath env (arg_out_dir a)) ''mint.webp'' \<mapsto> mint_enc,
             path_join (env_abspath env (arg_out_dir a)) ''thumb.webp'' \<mapsto> thumb_enc)\<rparr>"
      and doc: "doc = build_result (env_abspath env (arg_out_dir a)) (env_abspath env (arg_input a))
             (path_join (env_abspath env (arg_out_dir a)) ''mint.webp'')
             (path_join (env_abspath env (arg_out_dir a)) ''thumb.webp'')
             (add_title (env_abspath env (arg_input a))
                (build_meta env (env_abspath env (arg_input a)) r original_bytes mint_bytes
                   thumb_bytes))"
    by blast
  have s1: "s1 = s\<lparr>fs_dirs := insert (env_abspath env (arg_out_dir a)) (fs_dirs s)\<rparr>"
    using mk by (simp add: makedirs_def split: if_splits)
  have q: "jpath [''meta'', ''mint'', ''quality''] doc = Some (JFloat (85 / 100))"
    unfolding doc
    apply (simp add: jget_meta map_of_add_title)
    apply (simp add: build_meta_def)
    done
  have f1: "fs_files s' (path_join (env_abspath env (arg_out_dir a)) ''mint.webp'') = Some mint_enc"
    using path_join_webp_distinct [of "env_abspath env (arg_out_dir a)"] by (simp add: s')
  have f2: "fs_files s' (path_join (env_abspath env (arg_out_dir a)) ''thumb.webp'') = Some thumb_enc"
    by (simp add: s')
  show ?thesis
    using q lr e1 e2 f1 f2 unfolding s1 by blast
qed


theorem manifest_quality_literal_witness:
  "\<exists>doc s'. main demo_env (parse_args (demo_cli\<lparr>cli_input := ''art.png''\<rparr>)) demo_fs = (Inr doc, s') \<and>
     arg_quality (parse_args (demo_cli\<lparr>cli_input := ''art.png''\<rparr>)) = 7 \<and>
     jpath [''meta'', ''mint'', ''quality''] doc = Some (JFloat (85 / 100))"
proof -
  obtain doc s' where ok:
    "main demo_env (parse_args (demo_cli\<lparr>cli_input := ''art.png''\<rparr>)) demo_fs = (Inr doc, s')"
    using demo_main_ok_art by blast
  have "jpath [''meta'', ''mint'', ''quality''] doc = Some (JFloat (85 / 100))"
    using manifest_quality_literal [OF ok] by (rule conjunct1)
  moreover have "arg_quality (parse_args (demo_cli\<lparr>cli_input := ''art.png''\<rparr>)) = 7"
    by (simp add: parse_args_def demo_cli_def)
  ultimately show ?thesis
    using ok by blast
qed


text \<open>
  Claim C9. Whenever a run succeeds, the manifest has the field \<open>meta.title\<close> exactly
  when the stem is not empty, and the field then holds the stem: the base name of the
  input path, without its extension (\<open>os.path.splitext\<close>) and without surrounding
  whitespace (\<open>str.strip\<close>).
\<close>

theorem manifest_title:
  assumes "main env a s = (Inr doc, s')"
  shows "jpath [''meta'', ''title''] doc =
     (let stem = py_strip (fst (splitext (basename (env_abspath env (arg_input a)))))
      in if stem \<noteq> [] then Some (JStr stem) else None)"
proof -
  from main_success [OF assms] obtain r original_bytes mint_bytes thumb_bytes
    where doc: "doc = build_result (env_abspath env (arg_out_dir a)) (env_abspath env (arg_input a))
             (path_join (env_abspath env (arg_out_dir a)) ''mint.webp'')
             (path_join (env_abspath env (arg_out_dir a)) ''thumb.webp'')
             (add_title (env_abspath env (arg_input a))
                (build_meta env (env_abspath env (arg_input a)) r original_bytes mint_bytes
                   thumb_bytes))"
    by blast
  show ?thesis
    unfolding doc by (simp add: jget_meta map_of_add_title title_stem_def Let_def)
qed


theorem manifest_title_witness:
  "(\<exists>doc s'. main demo_env (parse_args (demo_cli\<lparr>cli_input := ''art.png''\<rparr>)) demo_fs = (Inr doc, s') \<and>
      jpath [''meta'', ''title''] doc = Some (JStr ''art'')) \<and>
   (\<exists>doc s'. main demo_env (parse_args (demo_cli\<lparr>cli_input := '' .png''\<rparr>)) demo_fs = (Inr doc, s') \<and>
      jpath [''meta'', ''title''] doc = None)"
proof
  obtain doc s' where ok:
    "main demo_env (parse_args (demo_cli\<lparr>cli_input := ''art.png''\<rparr>)) demo_fs = (Inr doc, s')"
    using demo_main_ok_art by blast
  have "jpath [''meta'', ''title''] doc = Some (JStr ''art'')"
    using manifest_title [OF ok]
    by (simp add: parse_args_def demo_cli_def demo_env_def basename_def splitext_def py_rfind_def
        py_strip_def py_isspace_def Let_def)
  with ok show "\<exists>doc s'. main demo_env (parse_args (demo_cli\<lparr>cli_input := ''art.png''\<rparr>)) demo_fs = (Inr doc, s') \<and>
      jpath [''meta'', ''title''] doc = Some (JStr ''art'')"
    by blast
next
  obtain doc s' where ok:
    "main demo_env (parse_args (demo_cli\<lparr>cli_input := '' .png''\<rparr>)) demo_fs = (Inr doc, s')"
    using demo_main_ok_blank by blast
  have "jpath [''meta'', ''title''] doc = None"
    using manifest_title [OF ok]
    by (simp add: parse_args_def demo_cli_def demo_env_def basename_def splitext_def py_rfind_def
        py_strip_def py_isspace_def Let_def)
  with ok show "\<exists>doc s'. main demo_env (parse_args (demo_cli\<lparr>cli_input := '' .png''\<rparr>)) demo_fs = (Inr doc, s') \<and>
      jpath [''meta'', ''title''] doc = None"
    by blast
qed

lemma render_square_contain_img_size:
  assumes "render_square_contain lib src S = Inr canvas"
  shows "img_size canvas = (S, S)"
proof -
  obtain w h where sz: "img_size src = (w, h)"
    by (cases "img_size src")
  from render_square_contain_result [OF sz assms] show ?thesis
    by (auto simp: img_size_paste)
qed

lemma demo_main_ok_doc:
  assumes ab: "env_abspath demo_env n = p"
    and fl0: "fs_files demo_fs p = Some ''PNG12''"
    and ne: "p \<noteq> ''/work/out/mint.webp''" "p \<noteq> ''/work/out/thumb.webp''"
  shows "\<exists>r s'. main demo_env (parse_args (demo_cli\<lparr>cli_input := n\<rparr>)) demo_fs =
      (Inr (build_result ''/work/out'' p ''/work/out/mint.webp'' ''/work/out/thumb.webp''
             (add_title p (build_meta demo_env p r ''PNG12'' ''WEBPqqqqqqq'' ''WEBPqqqqqqq''))),
       s') \<and>
     r_mint_side r = 5 \<and> r_thumb_side r = 3 \<and> read_file s' p = Inr ''PNG12''"
proof -
  define s1 where "s1 = demo_fs\<lparr>fs_dirs := insert ''/work/out'' (fs_dirs demo_fs)\<rparr>"
  have f: "fs_files s1 p = Some ''PNG12''"
    using fl0 by (simp add: s1_def)
  obtain r where r:
    "load_and_render demo_pil (parse_args (demo_cli\<lparr>cli_input := n\<rparr>)) s1 p = Inr r"
    "img_size (r_mint_img r) = (5, 5)" "img_size (r_thumb_img r) = (3, 3)"
    "r_mint_side r = 5" "r_thumb_side r = 3"
    using demo_rendered_any [OF f] by blast
  have a: "env_abspath demo_env ''out'' = ''/work/out''" "env_pil demo_env = demo_pil"
    by (simp_all add: demo_env_def)
  have p: "arg_input (parse_args (demo_cli\<lparr>cli_input := n\<rparr>)) = n"
    "arg_out_dir (parse_args (demo_cli\<lparr>cli_input := n\<rparr>)) = ''out''"
    "arg_quality (parse_args (demo_cli\<lparr>cli_input := n\<rparr>)) = 7"
    by (simp_all add: parse_args_def demo_cli_def)
  have mk: "makedirs demo_fs ''/work/out'' = Inr s1"
    by (simp add: makedirs_def demo_fs_def s1_def)
  have enc: "pil_encode_webp demo_pil (r_mint_img r) 7 = Inr ''WEBPqqqqqqq''"
    "pil_encode_webp demo_pil (r_thumb_img r) 7 = Inr ''WEBPqqqqqqq''"
    using r(2,3) by (simp_all add: demo_pil_def eval_nat_numeral)
  have "\<exists>s'. main demo_env (parse_args (demo_cli\<lparr>cli_input := n\<rparr>)) demo_fs =
      (Inr (build_result ''/work/out'' p ''/work/out/mint.webp'' ''/work/out/thumb.webp''
             (add_title p (build_meta demo_env p r ''PNG12'' ''WEBPqqqqqqq'' ''WEBPqqqqqqq''))),
       s') \<and> read_file s' p = Inr ''PNG12''"
    using ne
    by (simp add: main_def ab a p mk r(1) enc save_webp_def path_join_def read_file_def f Let_def)
  with r(4,5) show ?thesis
    by blast
qed

lemma demo_main_bmp:
  "main demo_env (parse_args (demo_cli\<lparr>cli_input := ''old.bmp''\<rparr>)) demo_fs =
     (Inl (ValueError ''Unsupported input format: BMP''),
      demo_fs\<lparr>fs_dirs := insert ''/work/out'' (fs_dirs demo_fs)\<rparr>)"
  by (simp add: main_def demo_env_def parse_args_def demo_cli_def makedirs_def demo_fs_def
      load_and_render_def image_open_def read_file_def demo_pil_def validate_input_def
      format_tag_def py_upper_def allowed_keys unsupported_def Let_def)

section \<open>The sides of the two renditions\<close>

text \<open>
  Claim C1. For an input image that opens and passes the validator, with width \<open>w\<close> and
  height \<open>h\<close> (both at least 1), the mint rendition is rendered with the side
  \<open>min(mint_max_side, max(w, h))\<close> and the thumbnail with the side
  \<open>min(thumb_max_side, max(w, h))\<close>, where the maxima are those of the command line,
  4096 and 512 when not given. Whenever both renderings return, these are the sides
  recorded for the manifest, and each rendition is a square of its side.
\<close>

theorem rendition_sides:
  assumes "image_open lib s p = Inr im" and "validate_input im = Inr (mime, w, h)"
  shows "img_size im = (w, h) \<and> 1 \<le> w \<and> 1 \<le> h \<and>
     load_and_render lib (parse_args c) s p =
       (case render_square_contain lib im
               (min (case cli_mint_max_side c of None \<Rightarrow> 4096 | Some v \<Rightarrow> v) (max w h)) of
          Inl e \<Rightarrow> Inl e
        | Inr mint_img \<Rightarrow>
            (case render_square_contain lib im
                    (min (case cli_thumb_max_side c of None \<Rightarrow> 512 | Some v \<Rightarrow> v) (max w h)) of
               Inl e \<Rightarrow> Inl e
             | Inr thumb_img \<Rightarrow>
                 Inr \<lparr>r_mime = mime, r_original_w = w, r_original_h = h,
                      r_mint_side =
                        min (case cli_mint_max_side c of None \<Rightarrow> 4096 | Some v \<Rightarrow> v) (max w h),
                      r_thumb_side =
                        min (case cli_thumb_max_side c of None \<Rightarrow> 512 | Some v \<Rightarrow> v) (max w h),
                      r_mint_img = mint_img, r_thumb_img = thumb_img\<rparr>)) \<and>
     (\<forall>r. load_and_render lib (parse_args c) s p = Inr r \<longrightarrow>
        r_mint_side r = min (case cli_mint_max_side c of None \<Rightarrow> 4096 | Some v \<Rightarrow> v) (max w h) \<and>
        r_thumb_side r = min (case cli_thumb_max_side c of None \<Rightarrow> 512 | Some v \<Rightarrow> v) (max w h) \<and>
        img_size (r_mint_img r) = (r_mint_side r, r_mint_side r) \<and>
        img_size (r_thumb_img r) = (r_thumb_side r, r_thumb_side r))"
proof -
  have v: "img_size im = (w, h) \<and> 1 \<le> w \<and> 1 \<le> h"
    using assms(2)
    by (auto simp: validate_input_def Let_def split: option.splits if_splits prod.splits)
  have eq: "load_and_render lib (parse_args c) s p =
       (case render_square_contain lib im
               (min (case cli_mint_max_side c of None \<Rightarrow> 4096 | Some v \<Rightarrow> v) (max w h)) of
          Inl e \<Rightarrow> Inl e
        | Inr mint_img \<Rightarrow>
            (case render_square_contain lib im
                    (min (case cli_thumb_max_side c of None \<Rightarrow> 512 | Some v \<Rightarrow> v) (max w h)) of
               Inl e \<Rightarrow> Inl e
             | Inr thumb_img \<Rightarrow>
                 Inr \<lparr>r_mime = mime, r_original_w = w, r_original_h = h,
                      r_mint_side =
                        min (case cli_mint_max_side c of None \<Rightarrow> 4096 | Some v \<Rightarrow> v) (max w h),
                      r_thumb_side =
                        min (case cli_thumb_max_side c of None \<Rightarrow> 512 | Some v \<Rightarrow> v) (max w h),
                      r_mint_img = mint_img, r_thumb_img = thumb_img\<rparr>))"
    by (cases "cli_mint_max_side c"; cases "cli_thumb_max_side c")
      (simp_all add: load_and_render_def assms parse_args_def MAX_MINT_DIM_def MAX_THUMB_DIM_def
        Let_def split: sum.splits)
  have "r_mint_side r = min (case cli_mint_max_side c of None \<Rightarrow> 4096 | Some v \<Rightarrow> v) (max w h) \<and>
        r_thumb_side r = min (case cli_thumb_max_side c of None \<Rightarrow> 512 | Some v \<Rightarrow> v) (max w h) \<and>
        img_size (r_mint_img r) = (r_mint_side r, r_mint_side r) \<and>
        img_size (r_thumb_img r) = (r_thumb_side r, r_thumb_side r)"
    if "load_and_render lib (parse_args c) s p = Inr r" for r
    using that unfolding eq
    by (auto split: sum.splits dest: render_square_contain_img_size)
  with v eq show ?thesis
    by blast
qed

theorem rendition_sides_witness:
  "\<exists>r. load_and_render demo_pil (parse_args demo_cli) demo_fs ''/work/art.png'' = Inr r \<and>
     r_mint_side r = 5 \<and> r_thumb_side r = 3 \<and>
     img_size (r_mint_img r) = (5, 5) \<and> img_size (r_thumb_img r) = (3, 3)"
proof -
  have op: "image_open demo_pil demo_fs ''/work/art.png'' =
      Inr \<lparr>img_format = Some ''PNG'', img_mode = ''RGB'', img_size = (5, 2),
           img_px = (\<lambda>_. [10, 20, 30])\<rparr>"
    by (simp add: image_open_def read_file_def demo_fs_def demo_pil_def)
  have c: "demo_cli\<lparr>cli_input := ''art.png''\<rparr> = demo_cli"
    by (simp add: demo_cli_def)
  obtain r where r: "load_and_render demo_pil (parse_args demo_cli) demo_fs ''/work/art.png'' = Inr r"
    using demo_rendered_any [of demo_fs "''/work/art.png''" "''art.png''"]
    by (auto simp: c demo_fs_def)
  have "r_mint_side r = 5 \<and> r_thumb_side r = 3 \<and>
     img_size (r_mint_img r) = (5, 5) \<and> img_size (r_thumb_img r) = (3, 3)"
    using rendition_sides [OF op demo_validated, of demo_cli] r
    by (simp add: demo_cli_def)
  with r show ?thesis
    by blast
qed

section \<open>An unsupported format\<close>



section \<open>Exit status and output streams\<close>

text \<open>
  Claim C7. If the import of the imaging library fails, the process prints the failure
  to standard error and exits with status 2, with nothing on standard output and the
  file system untouched. Otherwise, for an accepted command line: if \<open>main\<close> ends with an
  exception, its message is printed to standard error, nothing is printed to standard
  output, and the exit status is 1; if \<open>main\<close> returns, standard output holds exactly
  the manifest and the exit status is 0. In every run, either the exit status is 0 with
  one document on standard output and nothing on standard error, or it is 1 or 2 with
  nothing on standard output and a message on standard error.
\<close>

theorem script_exit_status:
  "(import_failure = Some m \<longrightarrow>
      script env import_failure cmdline s =
        \<lparr>out_stdout = [], out_stderr = [ErrLine (''Failed to import Pillow (PIL): '' @ m)],
         out_exit = 2, out_fs = s\<rparr>) \<and>
   (main env (parse_args c) s = (Inl e, s') \<longrightarrow>
      script env None (Inr c) s =
        \<lparr>out_stdout = [], out_stderr = [ErrLine (py_str e), Traceback e],
         out_exit = 1, out_fs = s'\<rparr>) \<and>
   (main env (parse_args c) s = (Inr doc, s') \<longrightarrow>
      script env None (Inr c) s =
        \<lparr>out_stdout = [doc], out_stderr = [], out_exit = 0, out_fs = s'\<rparr>) \<and>
   (out_exit (script env import_failure cmdline s) = 0 \<and>
      length (out_stdout (script env import_failure cmdline s)) = 1 \<and>
      out_stderr (script env import_failure cmdline s) = [] \<or>
    out_exit (script env import_failure cmdline s) \<in> {1, 2} \<and>
      out_stdout (script env import_failure cmdline s) = [] \<and>
      out_stderr (script env import_failure cmdline s) \<noteq> [])"
  by (simp add: script_def split: option.splits sum.splits prod.splits)

theorem script_exit_status_witness:
  "script demo_env (Some ''No module named 'PIL' '') (Inr demo_cli) demo_fs =
     \<lparr>out_stdout = [],
      out_stderr = [ErrLine ''Failed to import Pillow (PIL): No module named 'PIL' ''],
      out_exit = 2, out_fs = demo_fs\<rparr> \<and>
   script demo_env None (Inr (demo_cli\<lparr>cli_input := ''old.bmp''\<rparr>)) demo_fs =
     \<lparr>out_stdout = [],
      out_stderr = [ErrLine ''Unsupported input format: BMP'',
                    Traceback (ValueError ''Unsupported input format: BMP'')],
      out_exit = 1, out_fs = demo_fs\<lparr>fs_dirs := insert ''/work/out'' (fs_dirs demo_fs)\<rparr>\<rparr> \<and>
   (\<exists>doc s'. script demo_env None (Inr (demo_cli\<lparr>cli_input := ''art.png''\<rparr>)) demo_fs =
     \<lparr>out_stdout = [doc], out_stderr = [], out_exit = 0, out_fs = s'\<rparr>)"
proof (intro conjI)
  show "script demo_env (Some ''No module named 'PIL' '') (Inr demo_cli) demo_fs =
     \<lparr>out_stdout = [],
      out_stderr = [ErrLine ''Failed to import Pillow (PIL): No module named 'PIL' ''],
      out_exit = 2, out_fs = demo_fs\<rparr>"
    using script_exit_status [where import_failure = "Some ''No module named 'PIL' ''"
        and m = "''No module named 'PIL' ''" and env = demo_env and cmdline = "Inr demo_cli"
        and s = demo_fs]
    by simp
  show "script demo_env None (Inr (demo_cli\<lparr>cli_input := ''old.bmp''\<rparr>)) demo_fs =
     \<lparr>out_stdout = [],
      out_stderr = [ErrLine ''Unsupported input format: BMP'',
                    Traceback (ValueError ''Unsupported input format: BMP'')],
      out_exit = 1, out_fs = demo_fs\<lparr>fs_dirs := insert ''/work/out'' (fs_dirs demo_fs)\<rparr>\<rparr>"
    using script_exit_status [where env = demo_env and s = demo_fs
        and c = "demo_cli\<lparr>cli_input := ''old.bmp''\<rparr>"
        and e = "ValueError ''Unsupported input format: BMP''"
        and s' = "demo_fs\<lparr>fs_dirs := insert ''/work/out'' (fs_dirs demo_fs)\<rparr>"]
      demo_main_bmp
    by simp
  obtain doc s' where ok:
    "main demo_env (parse_args (demo_cli\<lparr>cli_input := ''art.png''\<rparr>)) demo_fs = (Inr doc, s')"
    using demo_main_ok_art by blast
  show "\<exists>doc s'. script demo_env None (Inr (demo_cli\<lparr>cli_input := ''art.png''\<rparr>)) demo_fs =
     \<lparr>out_stdout = [doc], out_stderr = [], out_exit = 0, out_fs = s'\<rparr>"
    using script_exit_status [where env = demo_env and s = demo_fs
        and c = "demo_cli\<lparr>cli_input := ''art.png''\<rparr>" and doc = doc and s' = s'] ok
    by blast
qed

lemma foldl_append_concat: "foldl (@) h xss = h @ concat xss"
  by (induction xss arbitrary: h) simp_all

lemma demo_hex: "hex_of (env_sha256 demo_env ''PNG12'') = ''054a''"
  by code_simp

section \<open>Content hashes\<close>

text \<open>
  Claim C3, as stated: the manifest does not hold a content hash per file. On a run
  that succeeds, the entries of the mint rendition and of the thumbnail consist of the
  fields below, none of which is a hash.
\<close>

theorem manifest_renditions_unhashed:
  "\<exists>doc s'. main demo_env (parse_args (demo_cli\<lparr>cli_input := ''art.png''\<rparr>)) demo_fs = (Inr doc, s') \<and>
     jpath [''meta'', ''mint''] doc =
       Some (JObj [(''mime'', JStr ''image/webp''), (''bytes'', JInt 11), (''width'', JInt 5),
                   (''height'', JInt 5), (''maxSide'', JInt 5), (''fit'', JStr ''contain''),
                   (''format'', JStr ''webp''), (''quality'', JFloat (85 / 100))]) \<and>
     jpath [''meta'', ''thumbnail''] doc =
       Some (JObj [(''mime'', JStr ''image/webp''), (''bytes'', JInt 11), (''width'', JInt 3),
                   (''height'', JInt 3), (''maxSide'', JInt 3)])"
proof -
  obtain r s' where m:
    "main demo_env (parse_args (demo_cli\<lparr>cli_input := ''art.png''\<rparr>)) demo_fs =
      (Inr (build_result ''/work/out'' ''/work/art.png'' ''/work/out/mint.webp''
             ''/work/out/thumb.webp''
             (add_title ''/work/art.png''
                (build_meta demo_env ''/work/art.png'' r ''PNG12'' ''WEBPqqqqqqq''
                   ''WEBPqqqqqqq''))),
       s')"
    and r: "r_mint_side r = 5" "r_thumb_side r = 3"
    using demo_main_ok_doc [where n = "''art.png''" and p = "''/work/art.png''"]
    by (auto simp: demo_env_def demo_fs_def)
  have a: "jpath [''meta'', ''mint'']
       (build_result ''/work/out'' ''/work/art.png'' ''/work/out/mint.webp''
             ''/work/out/thumb.webp''
             (add_title ''/work/art.png''
                (build_meta demo_env ''/work/art.png'' r ''PNG12'' ''WEBPqqqqqqq''
                   ''WEBPqqqqqqq''))) =
       Some (JObj [(''mime'', JStr ''image/webp''), (''bytes'', JInt 11), (''width'', JInt 5),
                   (''height'', JInt 5), (''maxSide'', JInt 5), (''fit'', JStr ''contain''),
                   (''format'', JStr ''webp''), (''quality'', JFloat (85 / 100))])"
    apply (simp add: jget_meta map_of_add_title)
    apply (simp add: build_meta_def r)
    done
  have b: "jpath [''meta'', ''thumbnail'']
       (build_result ''/work/out'' ''/work/art.png'' ''/work/out/mint.webp''
             ''/work/out/thumb.webp''
             (add_title ''/work/art.png''
                (build_meta demo_env ''/work/art.png'' r ''PNG12'' ''WEBPqqqqqqq''
                   ''WEBPqqqqqqq''))) =
       Some (JObj [(''mime'', JStr ''image/webp''), (''bytes'', JInt 11), (''width'', JInt 3),
                   (''height'', JInt 3), (''maxSide'', JInt 3)])"
    apply (simp add: jget_meta map_of_add_title)
    apply (simp add: build_meta_def r)
    done
  from m a b show ?thesis
    by blast
qed

text \<open>
  Claim C3, amended. The hasher \<open>sha256_hex\<close> reads a file in chunks of 1 MiB (every
  chunk but the last has exactly that length, none is empty, and together they are the
  file's content), feeds them in order to SHA-256, and returns the digest in hexadecimal
  with lowercase digits, two for each digest byte. The pipeline itself hashes one file
  only: on a run that succeeds, the manifest's \<open>meta.original.sha256\<close> is what the hasher
  returns for the input path on the file system the run leaves, while the entries of the
  mint rendition and of the thumbnail have no hash field.
\<close>

theorem sha256_hex_and_manifest:
  "sha256_hex env s path =
     (case read_file s path of
        Inl e \<Rightarrow> Inl e
      | Inr content \<Rightarrow> Inr (hex_of (env_sha256 env (foldl (@) [] (chunks_of content))))) \<and>
   concat (chunks_of content) = content \<and>
   (\<forall>c \<in> set (chunks_of content). c \<noteq> [] \<and> length c \<le> 1024 * 1024) \<and>
   (\<forall>c \<in> set (butlast (chunks_of content)). length c = 1024 * 1024) \<and>
   set (hex_of d) \<subseteq> set ''0123456789abcdef'' \<and> length (hex_of d) = 2 * length d \<and>
   (main env a s0 = (Inr doc, s') \<longrightarrow>
      (\<exists>h. sha256_hex env s' (env_abspath env (arg_input a)) = Inr h \<and>
           jpath [''meta'', ''original'', ''sha256''] doc = Some (JStr h)) \<and>
      (\<exists>kvs. jpath [''meta'', ''mint''] doc = Some (JObj kvs) \<and>
           map fst kvs = [''mime'', ''bytes'', ''width'', ''height'', ''maxSide'', ''fit'',
                          ''format'', ''quality'']) \<and>
      (\<exists>kvs. jpath [''meta'', ''thumbnail''] doc = Some (JObj kvs) \<and>
           map fst kvs = [''mime'', ''bytes'', ''width'', ''height'', ''maxSide'']))"
proof -
  have h1: "sha256_hex env s path =
     (case read_file s path of
        Inl e \<Rightarrow> Inl e
      | Inr content \<Rightarrow> Inr (hex_of (env_sha256 env (foldl (@) [] (chunks_of content)))))"
    by (simp only: sha256_hex_def hash_chunks_feeds_chunks)
  note cp = chunks_of_props [of content]
  have h2: "concat (chunks_of content) = content"
    using cp by (rule conjunct1)
  have h3: "\<forall>c \<in> set (chunks_of content). c \<noteq> [] \<and> length c \<le> 1024 * 1024"
    using conjunct1 [OF conjunct2 [OF cp]] by (simp add: CHUNK_def)
  have h4: "\<forall>c \<in> set (butlast (chunks_of content)). length c = 1024 * 1024"
    using conjunct2 [OF conjunct2 [OF cp]] by (simp add: CHUNK_def)
  have h5: "set (hex_of d) \<subseteq> set ''0123456789abcdef''"
    by (rule hex_of_lower)
  have h6: "length (hex_of d) = 2 * length d"
    by (rule length_hex_of)
  have h7: "(\<exists>h. sha256_hex env s' (env_abspath env (arg_input a)) = Inr h \<and>
           jpath [''meta'', ''original'', ''sha256''] doc = Some (JStr h)) \<and>
      (\<exists>kvs. jpath [''meta'', ''mint''] doc = Some (JObj kvs) \<and>
           map fst kvs = [''mime'', ''bytes'', ''width'', ''height'', ''maxSide'', ''fit'',
                          ''format'', ''quality'']) \<and>
      (\<exists>kvs. jpath [''meta'', ''thumbnail''] doc = Some (JObj kvs) \<and>
           map fst kvs = [''mime'', ''bytes'', ''width'', ''height'', ''maxSide''])"
    if ok: "main env a s0 = (Inr doc, s')"
  proof -
    from main_success [OF ok] obtain r original_bytes mint_bytes thumb_bytes
      where rd: "read_file s' (env_abspath env (arg_input a)) = Inr original_bytes"
        and doc: "doc = build_result (env_abspath env (arg_out_dir a)) (env_abspath env (arg_input a))
             (path_join (env_abspath env (arg_out_dir a)) ''mint.webp'')
             (path_join (env_abspath env (arg_out_dir a)) ''thumb.webp'')
             (add_title (env_abspath env (arg_input a))
                (build_meta env (env_abspath env (arg_input a)) r original_bytes mint_bytes
                   thumb_bytes))"
      by blast
    have sh: "sha256_hex env s' (env_abspath env (arg_input a)) =
        Inr (hex_of (env_sha256 env original_bytes))"
      by (simp add: sha256_hex_def rd hash_chunks_eq)
    have j1: "jpath [''meta'', ''original'', ''sha256''] doc =
        Some (JStr (hex_of (env_sha256 env original_bytes)))"
      unfolding doc
      apply (simp add: jget_meta map_of_add_title)
      apply (simp add: build_meta_def)
      done
    have j2: "\<exists>kvs. jpath [''meta'', ''mint''] doc = Some (JObj kvs) \<and>
           map fst kvs = [''mime'', ''bytes'', ''width'', ''height'', ''maxSide'', ''fit'',
                          ''format'', ''quality'']"
      unfolding doc
      apply (simp add: jget_meta map_of_add_title)
      apply (simp add: build_meta_def)
      done
    have j3: "\<exists>kvs. jpath [''meta'', ''thumbnail''] doc = Some (JObj kvs) \<and>
           map fst kvs = [''mime'', ''bytes'', ''width'', ''height'', ''maxSide'']"
      unfolding doc
      apply (simp add: jget_meta map_of_add_title)
      apply (simp add: build_meta_def)
      done
    from sh j1 j2 j3 show ?thesis
      by blast
  qed
  from h1 h2 h3 h4 h5 h6 h7 show ?thesis
    by blast
qed

theorem sha256_hex_and_manifest_witness:
  "sha256_hex demo_env demo_fs ''/work/art.png'' = Inr ''054a'' \<and>
   (\<exists>doc s'. main demo_env (parse_args (demo_cli\<lparr>cli_input := ''art.png''\<rparr>)) demo_fs = (Inr doc, s') \<and>
      jpath [''meta'', ''original'', ''sha256''] doc = Some (JStr ''054a'') \<and>
      sha256_hex demo_env s' ''/work/art.png'' = Inr ''054a'')"
proof
  have rd: "read_file demo_fs ''/work/art.png'' = Inr ''PNG12''"
    by (simp add: read_file_def demo_fs_def)
  have "sha256_hex demo_env demo_fs ''/work/art.png'' =
      Inr (hex_of (env_sha256 demo_env (foldl (@) [] (chunks_of ''PNG12''))))"
    using sha256_hex_and_manifest [where env = demo_env and s = demo_fs
        and path = "''/work/art.png''"]
    by (simp add: rd)
  moreover have "foldl (@) [] (chunks_of ''PNG12'') = ''PNG12''"
    using sha256_hex_and_manifest [where content = "''PNG12''"]
    by (simp add: foldl_append_concat)
  ultimately show "sha256_hex demo_env demo_fs ''/work/art.png'' = Inr ''054a''"
    by (simp add: demo_hex)
next
  obtain r s' where m:
    "main demo_env (parse_args (demo_cli\<lparr>cli_input := ''art.png''\<rparr>)) demo_fs =
      (Inr (build_result ''/work/out'' ''/work/art.png'' ''/work/out/mint.webp''
             ''/work/out/thumb.webp''
             (add_title ''/work/art.png''
                (build_meta demo_env ''/work/art.png'' r ''PNG12'' ''WEBPqqqqqqq''
                   ''WEBPqqqqqqq''))),
       s')"
    and rd: "read_file s' ''/work/art.png'' = Inr ''PNG12''"
    using demo_main_ok_doc [where n = "''art.png''" and p = "''/work/art.png''"]
    by (auto simp: demo_env_def demo_fs_def)
  have ip: "env_abspath demo_env (arg_input (parse_args (demo_cli\<lparr>cli_input := ''art.png''\<rparr>))) =
      ''/work/art.png''"
    by (simp add: demo_env_def parse_args_def demo_cli_def)
  have sh: "sha256_hex demo_env s' ''/work/art.png'' = Inr ''054a''"
    by (simp add: sha256_hex_def rd hash_chunks_eq demo_hex)
  from sha256_hex_and_manifest [where env = demo_env and s0 = demo_fs and s' = s'
      and a = "parse_args (demo_cli\<lparr>cli_input := ''art.png''\<rparr>)"] m
  obtain h where "sha256_hex demo_env s' ''/work/art.png'' = Inr h"
    "jpath [''meta'', ''original'', ''sha256'']
       (build_result ''/work/out'' ''/work/art.png'' ''/work/out/mint.webp''
             ''/work/out/thumb.webp''
             (add_title ''/work/art.png''
                (build_meta demo_env ''/work/art.png'' r ''PNG12'' ''WEBPqqqqqqq''
                   ''WEBPqqqqqqq''))) = Some (JStr h)"
    unfolding ip by blast
  with sh m show "\<exists>doc s'. main demo_env (parse_args (demo_cli\<lparr>cli_input := ''art.png''\<rparr>)) demo_fs = (Inr doc, s') \<and>
      jpath [''meta'', ''original'', ''sha256''] doc = Some (JStr ''054a'') \<and>
      sha256_hex demo_env s' ''/work/art.png'' = Inr ''054a''"
    by auto
qed

end
